theory Spec2Isabelle
  imports Main "HOL-Library.Sublist"
begin

unbundle bit_operations_syntax

section \<open>The terminfo screen of tscreen.go\<close>

text \<open>
  A shallow embedding of \<^verbatim>\<open>tscreen.go\<close>: the input parser
  (\<^verbatim>\<open>collectEventsFromInput\<close> and its sub-parsers), the clipboard operations,
  the cell renderer and the guarded facade operations. Byte strings are \<open>string\<close>
  (lists of 8-bit characters), Go's \<^verbatim>\<open>int\<close> is \<open>int\<close> with the 64-bit
  wrap-around written out where the parser computes with attacker-chosen digits.
\<close>

subsection \<open>Bytes and the magic strings\<close>

definition ESC :: char where
  "ESC = CHR 0x1B"

definition CSI8 :: char where
  "CSI8 = CHR 0x9B"

definition CR :: char where
  "CR = CHR 0x0D"

definition LF :: char where
  "LF = CHR 0x0A"

definition pasteBegin :: string where
  "pasteBegin = ESC # ''[200~''"

definition pasteEnd :: string where
  "pasteEnd = ESC # ''[201~''"

definition pasteDisable :: string where
  "pasteDisable = ESC # ''[?2004l''"

definition pasteOSC52Begin :: string where
  "pasteOSC52Begin = ESC # '']52;''"

definition pasteOSC52End :: string where
  "pasteOSC52End = [ESC, CHR 0x5C]"

text \<open>\<^verbatim>\<open>fmt.Sprintf(pasteSet, r, str)\<close>, \<^verbatim>\<open>pasteGet\<close> and \<^verbatim>\<open>pasteClear\<close>.\<close>

definition pasteSet :: "char \<Rightarrow> string \<Rightarrow> string" where
  "pasteSet r str = ESC # '']52;'' @ [r] @ '';'' @ str @ [ESC, CHR 0x5C]"

definition pasteGet :: "char \<Rightarrow> string" where
  "pasteGet r = ESC # '']52;'' @ [r] @ '';?'' @ [ESC, CHR 0x5C]"

definition pasteClear :: "char \<Rightarrow> string" where
  "pasteClear r = ESC # '']52;'' @ [r] @ '';!'' @ [ESC, CHR 0x5C]"

text \<open>Go's \<^verbatim>\<open>int\<close> on a 64-bit platform: the value an arithmetic result wraps to.\<close>

definition int64 :: "int \<Rightarrow> int" where
  "int64 i = (i + 2 ^ 63) mod 2 ^ 64 - 2 ^ 63"

subsection \<open>Library functions on byte strings\<close>

text \<open>\<^verbatim>\<open>bytes.IndexByte\<close>: the first position of a byte, or \<open>-1\<close>.\<close>

fun IndexByte :: "string \<Rightarrow> char \<Rightarrow> int" where
  "IndexByte [] c = -1"
| "IndexByte (x # xs) c =
     (if x = c then 0 else (let i = IndexByte xs c in if i = -1 then -1 else i + 1))"

text \<open>\<^verbatim>\<open>strings.Index\<close>: the first position where \<open>sub\<close> occurs, or \<open>-1\<close>.\<close>

fun Index :: "string \<Rightarrow> string \<Rightarrow> int" where
  "Index [] sub = (if sub = [] then 0 else -1)"
| "Index (x # xs) sub =
     (if prefix sub (x # xs) then 0
      else (let i = Index xs sub in if i = -1 then -1 else i + 1))"

text \<open>\<^verbatim>\<open>strings.Replace(s, "\r", "\n", -1)\<close> and its \<^verbatim>\<open>bytes\<close> twin.\<close>

definition ReplaceCR :: "string \<Rightarrow> string" where
  "ReplaceCR s = map (\<lambda>c. if c = CR then LF else c) s"

text \<open>
  The loop \<^verbatim>\<open>by, _ := buf.ReadByte(); t.escbuf.WriteByte(by)\<close> run \<open>n\<close> times: the
  bytes leave the input buffer and join \<open>escbuf\<close>. \<^verbatim>\<open>ReadByte\<close> on an empty buffer
  returns a zero byte and an error the code ignores, so a zero byte is written.
\<close>

definition readInto :: "nat \<Rightarrow> string \<Rightarrow> string \<Rightarrow> string \<times> string" where
  "readInto n inp esc =
     (drop n inp, esc @ take n inp @ replicate (n - length inp) (CHR 0x00))"

subsection \<open>Keys, modifiers, buttons and events\<close>

type_synonym rune = int

text \<open>
  Modelled from the spec: the key enum and the modifier mask are declared in key.go,
  which is not part of the sources. A key is its numeric code (the control keys
  0x00..0x1F are their bytes, so \<open>KeyEsc\<close> is 27; \<open>KeyRune\<close> is the first code
  after the byte range); a modifier mask is a set of modifiers, and \<^verbatim>\<open>mod |= ModAlt\<close>
  is insertion.
\<close>

type_synonym Key = int

definition KeyRune :: Key where
  "KeyRune = 256"

definition KeyEsc :: Key where
  "KeyEsc = 27"

datatype Modifier = ModShift | ModCtrl | ModAlt | ModMeta

type_synonym ModMask = "Modifier set"

definition ModNone :: ModMask where
  "ModNone = {}"

text \<open>Modelled from the spec: the button values of mouse.go that the parser assigns.\<close>

datatype ButtonMask = ButtonNone | Button1 | Button2 | Button3 | WheelUp | WheelDown

text \<open>
  An event records the arguments of its constructor call: \<^verbatim>\<open>NewEventKey(key, rune,
  mod, raw)\<close>, \<^verbatim>\<open>NewEventMouse(x, y, button, mod, raw)\<close>, \<^verbatim>\<open>NewEventPaste(text,
  raw)\<close>, \<^verbatim>\<open>NewEventRaw(raw)\<close>, \<^verbatim>\<open>NewEventResize(w, h)\<close>.
\<close>

datatype Event =
    EventKey Key rune ModMask string
  | EventMouse int int ButtonMask ModMask string
  | EventPaste string string
  | EventRaw string
  | EventResize int int

record tKeyCode =
  k_key :: Key
  k_mod :: ModMask

subsection \<open>Colours and styles\<close>

text \<open>
  Modelled from the spec: colours and styles are declared in color.go and style.go,
  which are not part of the sources. A colour is one of Default, Reset, a palette index
  or a true colour; a style is (foreground, background, attributes) or the sentinel
  Invalid.
\<close>

datatype Color = ColorDefault | ColorReset | PaletteIndex nat | TrueColor nat nat nat

datatype Attr = AttrBold | AttrUnderline | AttrReverse | AttrBlink | AttrDim | AttrItalic
  | AttrStrikeThrough

datatype Style = styleInvalid | Style Color Color "Attr set"

definition StyleDefault :: Style where
  "StyleDefault = Style ColorDefault ColorDefault {}"

fun Decompose :: "Style \<Rightarrow> Color \<times> Color \<times> Attr set" where
  "Decompose (Style fg bg attrs) = (fg, bg, attrs)"
| "Decompose styleInvalid = (ColorDefault, ColorDefault, {})"

fun IsRGB :: "Color \<Rightarrow> bool" where
  "IsRGB (TrueColor r g b) = True"
| "IsRGB c = False"

fun RGB :: "Color \<Rightarrow> int \<times> int \<times> int" where
  "RGB (TrueColor r g b) = (int r, int g, int b)"
| "RGB c = (-1, -1, -1)"

fun Valid :: "Color \<Rightarrow> bool" where
  "Valid (PaletteIndex n) = True"
| "Valid (TrueColor r g b) = True"
| "Valid c = False"

text \<open>\<^verbatim>\<open>int(c & 0xff)\<close>: the low byte of the colour value.\<close>

fun lowByte :: "Color \<Rightarrow> int" where
  "lowByte (PaletteIndex n) = int (n mod 256)"
| "lowByte (TrueColor r g b) = int (b mod 256)"
| "lowByte c = 0"

subsection \<open>The capability record and the screen\<close>

text \<open>
  The capability record of package terminfo, which is not part of the sources: its
  strings are fields, and its three functions (\<^verbatim>\<open>TGoto\<close>, \<^verbatim>\<open>TParm\<close>, and the
  bytes \<^verbatim>\<open>TPuts\<close> writes for a string after expanding its padding) are parameters.
\<close>

record Terminfo =
  Colors :: int
  Mouse :: string
  MouseMode :: string
  HideCursor :: string
  ShowCursor :: string
  ExitCA :: string
  ExitKeypad :: string
  AttrOff :: string
  Clear :: string
  Bold :: string
  Underline :: string
  Reverse :: string
  Blink :: string
  Dim :: string
  Italic :: string
  StrikeThrough :: string
  ResetFgBg :: string
  SetFg :: string
  SetBg :: string
  SetFgBg :: string
  SetFgRGB :: string
  SetBgRGB :: string
  SetFgBgRGB :: string
  TGoto :: "int \<Rightarrow> int \<Rightarrow> string"
  TParm :: "string \<Rightarrow> int list \<Rightarrow> string"
  TPutsBytes :: "string \<Rightarrow> string"

text \<open>
  What a \<^verbatim>\<open>transform.Transformer\<close> returns for one call of \<^verbatim>\<open>Transform(dst, src,
  true)\<close> after \<^verbatim>\<open>Reset\<close>: the bytes written to \<open>dst\<close>, the number of source bytes read,
  whether the error is \<^verbatim>\<open>ErrShortSrc\<close>, and whether there is any error.
\<close>

record Transformed =
  dstBytes :: string
  nSrc :: nat
  errShortSrc :: bool
  isErr :: bool

text \<open>
  The fields of \<^verbatim>\<open>tScreen\<close> that the modelled functions use, under their names with
  the receiver's \<open>t\<close> in front. The cell buffer (cell.go, not part of the sources) is
  a type parameter; its methods are the fields of \<open>CellBufferMethods\<close>. The event
  channel \<open>evch\<close> is the list of queued events, the terminal output \<open>out\<close> the bytes
  written so far.
\<close>

record 'cb tScreen =
  t_ti :: Terminfo
  t_h :: int
  t_w :: int
  t_fini :: bool
  t_cells :: 'cb
  t_out :: string
  t_buffering :: bool
  t_buf :: string
  t_escbuf :: string
  t_paste :: bool
  t_curstyle :: Style
  t_style :: Style
  t_evch :: "Event list"
  t_keyexist :: "Key set"
  t_keycodes :: "(string \<times> tKeyCode) list"
  t_cx :: int
  t_cy :: int
  t_clear :: bool
  t_cursorx :: int
  t_cursory :: int
  t_wasbtn :: bool
  t_acs :: "rune \<rightharpoonup> string"
  t_encoder :: "(string \<Rightarrow> Transformed) option"
  t_decoder :: "string \<Rightarrow> Transformed"
  t_fallback :: "rune \<rightharpoonup> string"
  t_colors :: "Color \<rightharpoonup> Color"
  t_palette :: "Color list"
  t_truecolor :: bool
  t_escaped :: bool
  t_buttondn :: bool
  t_rawseq :: "string list"

record 'cb CellBufferMethods =
  Size :: "'cb \<Rightarrow> int \<times> int"
  GetContent :: "'cb \<Rightarrow> int \<Rightarrow> int \<Rightarrow> rune \<times> rune list \<times> Style \<times> int"
  Dirty :: "'cb \<Rightarrow> int \<Rightarrow> int \<Rightarrow> bool"
  SetDirty :: "'cb \<Rightarrow> int \<Rightarrow> int \<Rightarrow> bool \<Rightarrow> 'cb"
  SetContentCB :: "'cb \<Rightarrow> int \<Rightarrow> int \<Rightarrow> rune \<Rightarrow> rune list \<Rightarrow> Style \<Rightarrow> 'cb"
  FillCB :: "'cb \<Rightarrow> rune \<Rightarrow> Style \<Rightarrow> 'cb"
  ResizeCB :: "'cb \<Rightarrow> int \<Rightarrow> int \<Rightarrow> 'cb"
  Invalidate :: "'cb \<Rightarrow> 'cb"

subsection \<open>Mouse events\<close>

definition clip :: "'cb CellBufferMethods \<Rightarrow> 'cb tScreen \<Rightarrow> int \<Rightarrow> int \<Rightarrow> int \<times> int" where
  "clip M t x y =
     (let (w, h) = Size M (t_cells t);
          x = (if x < 0 then 0 else x);
          y = (if y < 0 then 0 else y);
          x = (if x > w - 1 then w - 1 else x);
          y = (if y > h - 1 then h - 1 else y)
      in (x, y))"

text \<open>The \<^verbatim>\<open>switch btn & 0x43\<close> of \<^verbatim>\<open>buildMouseEvent\<close>: the button and the new \<open>wasbtn\<close>.\<close>

definition mouseButton :: "int \<Rightarrow> bool \<Rightarrow> ButtonMask \<times> bool" where
  "mouseButton btn wasbtn =
     (let sw = btn AND 0x43 in
      if sw = 0 then (Button1, True)
      else if sw = 1 then (Button3, True)
      else if sw = 2 then (Button2, True)
      else if sw = 3 then (ButtonNone, False)
      else if sw = 0x40 then (if \<not> wasbtn then WheelUp else Button1, wasbtn)
      else if sw = 0x41 then (if \<not> wasbtn then WheelDown else Button1, wasbtn)
      else (ButtonNone, wasbtn))"

definition mouseMod :: "int \<Rightarrow> ModMask" where
  "mouseMod btn =
     (let m = ModNone;
          m = (if btn AND 0x4 \<noteq> 0 then insert ModShift m else m);
          m = (if btn AND 0x8 \<noteq> 0 then insert ModAlt m else m);
          m = (if btn AND 0x10 \<noteq> 0 then insert ModCtrl m else m)
      in m)"

definition buildMouseEvent ::
  "'cb CellBufferMethods \<Rightarrow> 'cb tScreen \<Rightarrow> int \<Rightarrow> int \<Rightarrow> int \<Rightarrow> 'cb tScreen \<times> Event" where
  "buildMouseEvent M t x y btn =
     (let (button, wb) = mouseButton btn (t_wasbtn t);
          t = t\<lparr>t_wasbtn := wb\<rparr>;
          m = mouseMod btn;
          (x, y) = clip M t x y;
          escseq = t_escbuf t;
          t = t\<lparr>t_escbuf := []\<rparr>
      in (t, EventMouse x y button m escseq))"

text \<open>
  The result of a scan over the buffer: the bytes cannot be this record, more bytes are
  needed, or the record ended at an index with the values decoded so far.
\<close>

datatype 'a scanned = NoMatch | NeedMore | Found 'a

text \<open>
  The result of a sub-parser: \<open>(partial, complete)\<close> and the screen, input buffer and
  event list it leaves.
\<close>

type_synonym 'cb parsed = "(bool \<times> bool) \<times> 'cb tScreen \<times> string \<times> Event list"

record sgrVars =
  sx :: int
  sbtn :: int
  sstate :: nat
  sdig :: bool
  sneg :: bool
  sval :: int

definition isDigit :: "char \<Rightarrow> bool" where
  "isDigit c = (48 \<le> (of_char c :: nat) \<and> (of_char c :: nat) \<le> 57)"

text \<open>The \<^verbatim>\<open>for i = range b\<close> loop of \<^verbatim>\<open>parseSgrMouse\<close> up to its terminator.\<close>

fun sgrScan :: "string \<Rightarrow> nat \<Rightarrow> sgrVars \<Rightarrow> (nat \<times> char \<times> sgrVars) scanned" where
  "sgrScan [] i v = NeedMore"
| "sgrScan (c # cs) i v =
     (if c = ESC then
        (if sstate v \<noteq> 0 then NoMatch else sgrScan cs (i + 1) (v\<lparr>sstate := 1\<rparr>))
      else if c = CSI8 then
        (if sstate v \<noteq> 0 then NoMatch else sgrScan cs (i + 1) (v\<lparr>sstate := 2\<rparr>))
      else if c = CHR ''['' then
        (if sstate v \<noteq> 1 then NoMatch else sgrScan cs (i + 1) (v\<lparr>sstate := 2\<rparr>))
      else if c = CHR ''<'' then
        (if sstate v \<noteq> 2 then NoMatch
         else sgrScan cs (i + 1) (v\<lparr>sval := 0, sdig := False, sneg := False, sstate := 3\<rparr>))
      else if c = CHR ''-'' then
        (if sstate v \<noteq> 3 \<and> sstate v \<noteq> 4 \<and> sstate v \<noteq> 5 then NoMatch
         else if sdig v \<or> sneg v then NoMatch
         else sgrScan cs (i + 1) (v\<lparr>sneg := True\<rparr>))
      else if isDigit c then
        (if sstate v \<noteq> 3 \<and> sstate v \<noteq> 4 \<and> sstate v \<noteq> 5 then NoMatch
         else sgrScan cs (i + 1)
                (v\<lparr>sval := int64 (int64 (sval v * 10) + (int (of_char c) - 48)), sdig := True\<rparr>))
      else if c = CHR '';'' then
        (let v = (if sneg v then v\<lparr>sval := int64 (- sval v)\<rparr> else v) in
         if sstate v = 3 then
           sgrScan cs (i + 1) (v\<lparr>sbtn := sval v, sval := 0, sneg := False, sdig := False, sstate := 4\<rparr>)
         else if sstate v = 4 then
           sgrScan cs (i + 1)
             (v\<lparr>sx := int64 (sval v - 1), sval := 0, sneg := False, sdig := False, sstate := 5\<rparr>)
         else NoMatch)
      else if c = CHR ''m'' \<or> c = CHR ''M'' then
        (if sstate v \<noteq> 5 then NoMatch else Found (i, c, v))
      else sgrScan cs (i + 1) v)"

definition parseSgrMouse ::
  "'cb CellBufferMethods \<Rightarrow> 'cb tScreen \<Rightarrow> string \<Rightarrow> Event list \<Rightarrow> 'cb parsed" where
  "parseSgrMouse M t b evs =
     (let v0 = \<lparr>sx = 0, sbtn = 0, sstate = (if t_escaped t then 1 else 0),
                sdig = False, sneg = False, sval = 0\<rparr>
      in case sgrScan b 0 v0 of
           NoMatch \<Rightarrow> ((False, False), t, b, evs)
         | NeedMore \<Rightarrow> ((True, False), t, b, evs)
         | Found (i, c, v) \<Rightarrow>
             (let val = (if sneg v then int64 (- sval v) else sval v);
                  y = int64 (val - 1);
                  motion = (sbtn v AND 32 \<noteq> 0);
                  btn = sbtn v AND NOT 32;
                  (btn, t) =
                    (if c = CHR ''m'' then ((btn OR 3) AND NOT 0x40, t\<lparr>t_buttondn := False\<rparr>)
                     else if motion then
                       (if \<not> t_buttondn t then ((btn OR 3) AND NOT 0x40, t) else (btn, t))
                     else (btn, t\<lparr>t_buttondn := True\<rparr>));
                  (b', esc') = readInto (i + 1) b (t_escbuf t);
                  t = t\<lparr>t_escbuf := esc'\<rparr>;
                  (t, ev) = buildMouseEvent M t (sx v) y btn
              in ((True, True), t, b', evs @ [ev])))"

text \<open>
  The \<^verbatim>\<open>for i := range b\<close> loop of \<^verbatim>\<open>parseXtermMouse\<close>: the state, and the button
  and column decoded so far.
\<close>

fun xtermScan :: "string \<Rightarrow> nat \<Rightarrow> nat \<Rightarrow> int \<Rightarrow> int \<Rightarrow> (nat \<times> int \<times> int \<times> int) scanned" where
  "xtermScan [] i state btn x = NeedMore"
| "xtermScan (c # cs) i state btn x =
     (if state = 0 then
        (if c = ESC then xtermScan cs (i + 1) 1 btn x
         else if c = CSI8 then xtermScan cs (i + 1) 2 btn x
         else NoMatch)
      else if state = 1 then
        (if c \<noteq> CHR ''['' then NoMatch else xtermScan cs (i + 1) 2 btn x)
      else if state = 2 then
        (if c \<noteq> CHR ''M'' then NoMatch else xtermScan cs (i + 1) 3 btn x)
      else if state = 3 then xtermScan cs (i + 1) 4 (int (of_char c)) x
      else if state = 4 then xtermScan cs (i + 1) 5 btn (int (of_char c) - 32 - 1)
      else if state = 5 then Found (i, btn, x, int (of_char c) - 32 - 1)
      else xtermScan cs (i + 1) state btn x)"

definition parseXtermMouse ::
  "'cb CellBufferMethods \<Rightarrow> 'cb tScreen \<Rightarrow> string \<Rightarrow> Event list \<Rightarrow> 'cb parsed" where
  "parseXtermMouse M t b evs =
     (case xtermScan b 0 (if t_escaped t then 1 else 0) 0 0 of
        NoMatch \<Rightarrow> ((False, False), t, b, evs)
      | NeedMore \<Rightarrow> ((True, False), t, b, evs)
      | Found (i, btn, x, y) \<Rightarrow>
          (let (b', esc') = readInto (i + 1) b (t_escbuf t);
               t = t\<lparr>t_escbuf := esc'\<rparr>;
               (t, ev) = buildMouseEvent M t x y btn
           in ((True, True), t, b', evs @ [ev])))"

subsection \<open>Key table\<close>

text \<open>
  \<^verbatim>\<open>t.keycodes\<close> is a Go map from escape sequences to key codes; \<^verbatim>\<open>range\<close> visits
  it in an unspecified order. The model keeps it as an association list and visits it
  in list order, so a statement about every list is a statement about every order.
\<close>

definition keycodesLookup :: "(string \<times> tKeyCode) list \<Rightarrow> string \<Rightarrow> tKeyCode option" where
  "keycodesLookup kc val = map_of kc val"

definition keycodesStore ::
  "(string \<times> tKeyCode) list \<Rightarrow> string \<Rightarrow> tKeyCode \<Rightarrow> (string \<times> tKeyCode) list" where
  "keycodesStore kc val k = (val, k) # filter (\<lambda>e. fst e \<noteq> val) kc"

definition prepareKeyMod :: "'cb tScreen \<Rightarrow> Key \<Rightarrow> ModMask \<Rightarrow> string \<Rightarrow> 'cb tScreen" where
  "prepareKeyMod t k m val =
     (if val \<noteq> [] then
        (case keycodesLookup (t_keycodes t) val of
           None \<Rightarrow> t\<lparr>t_keyexist := insert k (t_keyexist t),
                     t_keycodes := keycodesStore (t_keycodes t) val \<lparr>k_key = k, k_mod = m\<rparr>\<rparr>
         | Some old \<Rightarrow> t)
      else t)"

definition prepareKeyModReplace ::
  "'cb tScreen \<Rightarrow> Key \<Rightarrow> Key \<Rightarrow> ModMask \<Rightarrow> string \<Rightarrow> 'cb tScreen" where
  "prepareKeyModReplace t k replace m val =
     (if val \<noteq> [] then
        (let old = keycodesLookup (t_keycodes t) val in
         if old = None \<or> map_option k_key old = Some replace then
           t\<lparr>t_keyexist := insert k (t_keyexist t),
             t_keycodes := keycodesStore (t_keycodes t) val \<lparr>k_key = k, k_mod = m\<rparr>\<rparr>
         else t)
      else t)"

definition prepareKey :: "'cb tScreen \<Rightarrow> Key \<Rightarrow> string \<Rightarrow> 'cb tScreen" where
  "prepareKey t k val = prepareKeyMod t k ModNone val"

text \<open>Every sequence in the key table is non-empty: the two primitives refuse \<open>""\<close>.\<close>

definition keycodesNonEmpty :: "(string \<times> tKeyCode) list \<Rightarrow> bool" where
  "keycodesNonEmpty kc = list_all (\<lambda>e. fst e \<noteq> []) kc"

subsection \<open>Function keys and runes\<close>

text \<open>The \<^verbatim>\<open>for e, k := range t.keycodes\<close> loop of \<^verbatim>\<open>parseFunctionKey\<close>.\<close>

fun functionKeyRange ::
  "(string \<times> tKeyCode) list \<Rightarrow> bool \<Rightarrow> 'cb tScreen \<Rightarrow> string \<Rightarrow> Event list \<Rightarrow> 'cb parsed" where
  "functionKeyRange [] partial t b evs = ((partial, False), t, b, evs)"
| "functionKeyRange ((esc, k) # rest) partial t b evs =
     (if length esc = 1 \<and> hd esc = ESC then functionKeyRange rest partial t b evs
      else if prefix esc b then
        (let r = (case b of [] \<Rightarrow> 0 | b0 # bs \<Rightarrow> if length esc = 1 then int (of_char b0) else 0);
             m = k_mod k;
             (m, t) = (if t_escaped t then (insert ModAlt m, t\<lparr>t_escaped := False\<rparr>) else (m, t));
             (b', esc') = readInto (length esc) b (t_escbuf t);
             t = t\<lparr>t_escbuf := esc'\<rparr>;
             evs = evs @ [EventKey (k_key k) r m (t_escbuf t)];
             t = t\<lparr>t_escbuf := []\<rparr>
         in ((True, True), t, b', evs))
      else functionKeyRange rest (if prefix b esc then True else partial) t b evs)"

definition parseFunctionKey :: "'cb tScreen \<Rightarrow> string \<Rightarrow> Event list \<Rightarrow> 'cb parsed" where
  "parseFunctionKey t b evs = functionKeyRange (t_keycodes t) False t b evs"

definition RuneError :: rune where
  "RuneError = 0xFFFD"

text \<open>
  The \<^verbatim>\<open>for l := 1; l <= len(b); l++\<close> loop of \<^verbatim>\<open>parseRune\<close>, over the lengths still
  to try. \<open>decodeRune\<close> is \<^verbatim>\<open>utf8.DecodeRune\<close>, a parameter.
\<close>

fun runeDecode ::
  "(string \<Rightarrow> rune) \<Rightarrow> nat list \<Rightarrow> 'cb tScreen \<Rightarrow> string \<Rightarrow> Event list \<Rightarrow> 'cb parsed" where
  "runeDecode decodeRune [] t b evs = ((True, False), t, b, evs)"
| "runeDecode decodeRune (l # ls) t b evs =
     (let d = t_decoder t (take l b) in
      if errShortSrc d then runeDecode decodeRune ls t b evs
      else if length (dstBytes d) \<noteq> 0 then
        (let r = decodeRune (dstBytes d);
             (t, evs) =
               (if r \<noteq> RuneError then
                  (let m = ModNone;
                       (m, t) = (if t_escaped t then ({ModAlt}, t\<lparr>t_escaped := False\<rparr>) else (m, t));
                       evs = evs @ [EventKey KeyRune r m (t_escbuf t)];
                       t = t\<lparr>t_escbuf := []\<rparr>
                   in (t, evs))
                else (t, evs));
             (b', esc') = readInto (nSrc d) b (t_escbuf t);
             t = t\<lparr>t_escbuf := esc'\<rparr>
         in ((True, True), t, b', evs))
      else runeDecode decodeRune ls t b evs)"

text \<open>
  \<^verbatim>\<open>parseRune\<close> and \<^verbatim>\<open>parsePaste\<close> read \<^verbatim>\<open>b[0]\<close> unguarded: on an empty buffer
  Go panics, which is the result \<open>None\<close>.
\<close>

definition parseRune ::
  "(string \<Rightarrow> rune) \<Rightarrow> 'cb tScreen \<Rightarrow> string \<Rightarrow> Event list \<Rightarrow> 'cb parsed option" where
  "parseRune decodeRune t b evs =
     (case b of
        [] \<Rightarrow> None
      | b0 # bs \<Rightarrow>
          Some (if (32::nat) \<le> of_char b0 \<and> (of_char b0 :: nat) \<le> 0x7F then
                  (let m = ModNone;
                       (m, t) = (if t_escaped t then ({ModAlt}, t\<lparr>t_escaped := False\<rparr>) else (m, t));
                       (b', esc') = readInto 1 b (t_escbuf t);
                       t = t\<lparr>t_escbuf := esc'\<rparr>;
                       evs = evs @ [EventKey KeyRune (int (of_char b0)) m (t_escbuf t)];
                       t = t\<lparr>t_escbuf := []\<rparr>
                   in ((True, True), t, b', evs))
                else if (of_char b0 :: nat) < 0x80 then ((False, False), t, b, evs)
                else runeDecode decodeRune [1 ..< Suc (length b)] t b evs))"

subsection \<open>The three paste protocols\<close>

definition parsePaste :: "'cb tScreen \<Rightarrow> string \<Rightarrow> Event list \<Rightarrow> (bool \<times> 'cb tScreen \<times> string \<times> Event list) option" where
  "parsePaste t buf evs =
     (case buf of
        [] \<Rightarrow> None
      | b0 # bs \<Rightarrow>
          Some (if b0 \<noteq> ESC then
                  (let esci = IndexByte buf ESC;
                       b = (if esci \<noteq> -1 then take (nat esci) buf else buf)
                   in if length b > 1 then
                        (let (buf', esc') = readInto (length b) buf (t_escbuf t);
                             t = t\<lparr>t_escbuf := esc'\<rparr>;
                             str = ReplaceCR b;
                             evs = evs @ [EventPaste str (t_escbuf t)];
                             t = t\<lparr>t_escbuf := []\<rparr>
                         in (True, t, buf', evs))
                      else (False, t, buf, evs))
                else (False, t, buf, evs)))"

text \<open>
  \<^verbatim>\<open>encoding/base64\<close>, \<^verbatim>\<open>StdEncoding\<close>: the alphabet of RFC 4648 with \<open>=\<close>
  padding. \<^verbatim>\<open>Decode\<close> ignores CR and LF, wants full quanta of four characters, padding
  only in the last one, and nothing after it; \<open>None\<close> is its \<^verbatim>\<open>CorruptInputError\<close>.
\<close>

definition encodeStd :: string where
  "encodeStd = ''ABCDEFGHIJKLMNOPQRSTUVWXYZabcdefghijklmnopqrstuvwxyz0123456789+/''"

definition enc6 :: "nat \<Rightarrow> char" where
  "enc6 n = encodeStd ! (n mod 64)"

definition decodeMap :: "char \<Rightarrow> nat option" where
  "decodeMap c = (let i = IndexByte encodeStd c in if i = -1 then None else Some (nat i))"

fun EncodeToString :: "string \<Rightarrow> string" where
  "EncodeToString (a # b # c # rest) =
     [enc6 (of_char a div 4),
      enc6 ((of_char a mod 4) * 16 + of_char b div 16),
      enc6 ((of_char b mod 16) * 4 + of_char c div 64),
      enc6 (of_char c mod 64)] @ EncodeToString rest"
| "EncodeToString [a, b] =
     [enc6 (of_char a div 4),
      enc6 ((of_char a mod 4) * 16 + of_char b div 16),
      enc6 ((of_char b mod 16) * 4),
      CHR ''='']"
| "EncodeToString [a] =
     [enc6 (of_char a div 4), enc6 ((of_char a mod 4) * 16), CHR ''='', CHR ''='']"
| "EncodeToString [] = []"

fun decodeQuanta :: "string \<Rightarrow> string option" where
  "decodeQuanta [] = Some []"
| "decodeQuanta (a # b # c # d # rest) =
     (case (decodeMap a, decodeMap b) of
        (Some s0, Some s1) \<Rightarrow>
          (if c = CHR ''='' then
             (if d = CHR ''='' \<and> rest = [] then Some [char_of (s0 * 4 + s1 div 16)] else None)
           else
             (case decodeMap c of
                None \<Rightarrow> None
              | Some s2 \<Rightarrow>
                  (if d = CHR ''='' then
                     (if rest = [] then
                        Some [char_of (s0 * 4 + s1 div 16), char_of ((s1 mod 16) * 16 + s2 div 4)]
                      else None)
                   else
                     (case decodeMap d of
                        None \<Rightarrow> None
                      | Some s3 \<Rightarrow>
                          map_option
                            (\<lambda>r. [char_of (s0 * 4 + s1 div 16),
                                  char_of ((s1 mod 16) * 16 + s2 div 4),
                                  char_of ((s2 mod 4) * 64 + s3)] @ r)
                            (decodeQuanta rest)))))
      | _ \<Rightarrow> None)"
| "decodeQuanta (a # rest) = None"

definition Decode :: "string \<Rightarrow> string option" where
  "Decode src = decodeQuanta (filter (\<lambda>c. c \<noteq> CR \<and> c \<noteq> LF) src)"

definition parseOSC52Paste :: "'cb tScreen \<Rightarrow> string \<Rightarrow> Event list \<Rightarrow> 'cb parsed" where
  "parseOSC52Paste t buf evs =
     (let str = buf;
          b = buf;
          prefixLen = length pasteOSC52Begin + 2
      in if prefix pasteOSC52Begin str \<or> prefix str pasteOSC52Begin then
           (let idx = Index str pasteOSC52End in
            if idx \<ge> int prefixLen then
              (let payload = drop prefixLen (take (nat idx) buf);
                   buf' = drop (length pasteOSC52End) (drop (nat idx) buf);
                   data = Decode payload;
                   t = t\<lparr>t_escbuf := t_escbuf t @ b\<rparr>
               in case data of
                    None \<Rightarrow> ((True, True), t, buf', evs)
                  | Some text \<Rightarrow>
                      ((True, True), t\<lparr>t_escbuf := []\<rparr>, buf',
                       evs @ [EventPaste text (t_escbuf t)]))
            else ((True, False), t, buf, evs))
         else ((False, False), t, buf, evs))"

definition parseBracketedPaste :: "'cb tScreen \<Rightarrow> string \<Rightarrow> Event list \<Rightarrow> 'cb parsed" where
  "parseBracketedPaste t buf evs =
     (let str = ReplaceCR buf in
      if prefix pasteBegin str \<or> prefix str pasteBegin then
        (let idx = Index str pasteEnd in
         if idx \<noteq> -1 \<and> idx \<ge> int (length pasteBegin) then
           (let n = nat idx + length pasteEnd;
                t = t\<lparr>t_escbuf := t_escbuf t @ take n buf\<rparr>;
                buf' = drop n buf;
                text = drop (length pasteBegin) (take (nat idx) str);
                evs = evs @ [EventPaste text (t_escbuf t)];
                t = t\<lparr>t_escbuf := []\<rparr>
            in ((True, True), t, buf', evs))
         else ((True, False), t, buf, evs))
      else ((False, False), t, buf, evs))"

subsection \<open>The scan loop\<close>

text \<open>
  The block under \<^verbatim>\<open>if partials == 0 || expire\<close>: every path through it ends in
  \<^verbatim>\<open>continue\<close>. A registered raw sequence is read off the buffer without being copied
  to \<open>escbuf\<close>.
\<close>

definition catchAll ::
  "'cb tScreen \<Rightarrow> string \<Rightarrow> Event list \<Rightarrow> ('cb tScreen \<times> string \<times> Event list) option" where
  "catchAll t buf res =
     (case buf of
        [] \<Rightarrow> None
      | b0 # bs \<Rightarrow>
          Some (if b0 = ESC then
                  (case find (\<lambda>r. prefix r buf) (t_rawseq t) of
                     Some r \<Rightarrow> (t\<lparr>t_escbuf := []\<rparr>, drop (length r) buf, res @ [EventRaw r])
                   | None \<Rightarrow>
                       (let (t, res) =
                              (if length buf = 1 then
                                 (t\<lparr>t_escbuf := [], t_escaped := False\<rparr>,
                                  res @ [EventKey KeyEsc 0 ModNone [ESC]])
                               else (t\<lparr>t_escaped := True\<rparr>, res));
                            (buf', esc') = readInto 1 buf (t_escbuf t)
                        in (t\<lparr>t_escbuf := esc'\<rparr>, buf', res)))
                else
                  (let (buf', esc') = readInto 1 buf (t_escbuf t);
                       t = t\<lparr>t_escbuf := esc'\<rparr>;
                       res = res @ [EventRaw (t_escbuf t)];
                       t = t\<lparr>t_escbuf := []\<rparr>
                   in (t, buf', res))))"

definition countPartial :: "bool \<Rightarrow> nat \<Rightarrow> nat" where
  "countPartial part partials = (if part then partials + 1 else partials)"

text \<open>
  One pass through the body of the \<^verbatim>\<open>for\<close> loop of \<^verbatim>\<open>collectEventsFromInput\<close> on
  a non-empty buffer. The first component says whether the pass ended in
  \<^verbatim>\<open>continue\<close> (\<open>True\<close>) or in \<^verbatim>\<open>break\<close>.
\<close>

definition mouseParsers ::
  "'cb CellBufferMethods \<Rightarrow> bool \<Rightarrow> nat \<Rightarrow> 'cb tScreen \<Rightarrow> string \<Rightarrow> Event list \<Rightarrow>
     (bool \<times> 'cb tScreen \<times> string \<times> Event list) option" where
  "mouseParsers M expire partials t buf res =
     (case parseXtermMouse M t buf res of
        ((p1, c1), t1, buf1, res1) \<Rightarrow>
          if c1 then Some (True, t1, buf1, res1)
          else
            (case parseSgrMouse M t1 buf1 res1 of
               ((p2, c2), t2, buf2, res2) \<Rightarrow>
                 if c2 then Some (True, t2, buf2, res2)
                 else if countPartial p2 (countPartial p1 partials) = 0 \<or> expire then
                   map_option (Pair True) (catchAll t2 buf2 res2)
                 else Some (False, t2, buf2, res2)))"

definition keyParsers ::
  "(string \<Rightarrow> rune) \<Rightarrow> 'cb CellBufferMethods \<Rightarrow> bool \<Rightarrow> nat \<Rightarrow> 'cb tScreen \<Rightarrow> string \<Rightarrow>
     Event list \<Rightarrow> (bool \<times> 'cb tScreen \<times> string \<times> Event list) option" where
  "keyParsers decodeRune M expire partials t buf res =
     (case parseRune decodeRune t buf res of
        None \<Rightarrow> None
      | Some ((p1, c1), t1, buf1, res1) \<Rightarrow>
          if c1 then Some (True, t1, buf1, res1)
          else
            (case parseFunctionKey t1 buf1 res1 of
               ((p2, c2), t2, buf2, res2) \<Rightarrow>
                 if c2 then Some (True, t2, buf2, res2)
                 else
                   (let partials = countPartial p2 (countPartial p1 partials) in
                    if Mouse (t_ti t2) \<noteq> [] then mouseParsers M expire partials t2 buf2 res2
                    else if partials = 0 \<or> expire then
                      map_option (Pair True) (catchAll t2 buf2 res2)
                    else Some (False, t2, buf2, res2))))"

definition collectIter ::
  "(string \<Rightarrow> rune) \<Rightarrow> 'cb CellBufferMethods \<Rightarrow> bool \<Rightarrow> 'cb tScreen \<Rightarrow> string \<Rightarrow>
     Event list \<Rightarrow> (bool \<times> 'cb tScreen \<times> string \<times> Event list) option" where
  "collectIter decodeRune M expire t buf res =
     (case (if t_paste t then parsePaste t buf res else Some (False, t, buf, res)) of
        None \<Rightarrow> None
      | Some (pasted, t0, buf0, res0) \<Rightarrow>
          if pasted then Some (True, t0, buf0, res0)
          else
            (case parseOSC52Paste t0 buf0 res0 of
               ((p1, c1), t1, buf1, res1) \<Rightarrow>
                 if c1 then Some (True, t1, buf1, res1)
                 else
                   (case parseBracketedPaste t1 buf1 res1 of
                      ((p2, c2), t2, buf2, res2) \<Rightarrow>
                        if c2 then Some (True, t2, buf2, res2)
                        else keyParsers decodeRune M expire
                               (countPartial p2 (countPartial p1 0)) t2 buf2 res2)))"

text \<open>
  The loop itself may run for ever (a registered raw sequence \<open>""\<close> matches without
  reading a byte), so it is a partial function: \<open>None\<close> is a scan that does not return.
\<close>

partial_function (option) collectLoop ::
  "(string \<Rightarrow> rune) \<Rightarrow> 'cb CellBufferMethods \<Rightarrow> bool \<Rightarrow> 'cb tScreen \<Rightarrow> string \<Rightarrow>
     Event list \<Rightarrow> ('cb tScreen \<times> string \<times> Event list) option" where
  "collectLoop decodeRune M expire t buf res =
     (if buf = [] then Some (t, [], res)
      else
        (case collectIter decodeRune M expire t buf res of
           None \<Rightarrow> None
         | Some (again, t', buf', res') \<Rightarrow>
             if again then collectLoop decodeRune M expire t' buf' res'
             else Some (t', buf', res')))"

declare collectLoop.simps [code]

definition collectEventsFromInput ::
  "(string \<Rightarrow> rune) \<Rightarrow> 'cb CellBufferMethods \<Rightarrow> 'cb tScreen \<Rightarrow> string \<Rightarrow> bool \<Rightarrow>
     ('cb tScreen \<times> string \<times> Event list) option" where
  "collectEventsFromInput decodeRune M t buf expire = collectLoop decodeRune M expire t buf []"

text \<open>
  The two input branches of \<^verbatim>\<open>mainLoop\<close> in a row: a chunk arrives and is scanned with
  \<open>expire = false\<close>; if bytes remain, the key timer fires after the quiet time and the
  rest is scanned with \<open>expire = true\<close>. The result is the events of both scans.
\<close>

definition chunkThenQuiet ::
  "(string \<Rightarrow> rune) \<Rightarrow> 'cb CellBufferMethods \<Rightarrow> 'cb tScreen \<Rightarrow> string \<Rightarrow> string \<Rightarrow>
     ('cb tScreen \<times> string \<times> Event list) option" where
  "chunkThenQuiet decodeRune M t buf chunk =
     (case collectEventsFromInput decodeRune M t (buf @ chunk) False of
        None \<Rightarrow> None
      | Some (t1, buf1, evs1) \<Rightarrow>
          if buf1 = [] then Some (t1, buf1, evs1)
          else
            (case collectEventsFromInput decodeRune M t1 buf1 True of
               None \<Rightarrow> None
             | Some (t2, buf2, evs2) \<Rightarrow> Some (t2, buf2, evs1 @ evs2)))"

subsection \<open>Writing to the terminal\<close>

definition writeString :: "'cb tScreen \<Rightarrow> string \<Rightarrow> 'cb tScreen" where
  "writeString t s =
     (if t_buffering t then t\<lparr>t_buf := t_buf t @ s\<rparr> else t\<lparr>t_out := t_out t @ s\<rparr>)"

definition TPuts :: "'cb tScreen \<Rightarrow> string \<Rightarrow> 'cb tScreen" where
  "TPuts t s =
     (if t_buffering t then t\<lparr>t_buf := t_buf t @ TPutsBytes (t_ti t) s\<rparr>
      else t\<lparr>t_out := t_out t @ TPutsBytes (t_ti t) s\<rparr>)"

subsection \<open>Clipboard\<close>

datatype clipError = NoRegisterProvided | InvalidRegister | TextTruncated

definition GetClipboard :: "'cb tScreen \<Rightarrow> string \<Rightarrow> 'cb tScreen \<times> clipError option" where
  "GetClipboard t register =
     (case register of
        [] \<Rightarrow> (t, Some NoRegisterProvided)
      | r # rs \<Rightarrow>
          if r \<noteq> CHR ''c'' \<and> r \<noteq> CHR ''p'' then (t, Some InvalidRegister)
          else (TPuts t (pasteGet r), None))"

definition SetClipboard ::
  "'cb tScreen \<Rightarrow> string \<Rightarrow> string \<Rightarrow> 'cb tScreen \<times> clipError option" where
  "SetClipboard t text register =
     (case register of
        [] \<Rightarrow> (t, Some NoRegisterProvided)
      | r # rs \<Rightarrow>
          if r \<noteq> CHR ''c'' \<and> r \<noteq> CHR ''p'' then (t, Some InvalidRegister)
          else
            (let t = TPuts t (pasteClear r);
                 err = (if length text \<ge> 74994 then Some TextTruncated else None);
                 str = EncodeToString text;
                 t = TPuts t (pasteSet r str)
             in (t, err)))"

subsection \<open>The renderer\<close>

text \<open>
  What the renderer takes from outside the file: \<^verbatim>\<open>utf8.EncodeRune\<close>, \<^verbatim>\<open>FindColor\<close>
  (color.go) and the window size the operating system reports (\<open>None\<close> when the query
  fails).
\<close>

record Externals =
  utf8EncodeRune :: "rune \<Rightarrow> string"
  FindColor :: "Color \<Rightarrow> Color list \<Rightarrow> Color"
  getWinSize :: "(int \<times> int) option"

definition encodeRune :: "Externals \<Rightarrow> 'cb tScreen \<Rightarrow> rune \<Rightarrow> string \<Rightarrow> string" where
  "encodeRune X t r buf =
     (let ob = utf8EncodeRune X r;
          (nb, err) =
            (case t_encoder t of
               None \<Rightarrow> ([], False)
             | Some enc \<Rightarrow> (dstBytes (enc ob), isErr (enc ob)))
      in if err \<or> length nb = 0 \<or> hd nb = CHR 0x1A then
           (if length buf = 0 then
              (case t_acs t r of
                 Some acs \<Rightarrow> buf @ acs
               | None \<Rightarrow>
                   (case t_fallback t r of
                      Some fb \<Rightarrow> buf @ fb
                    | None \<Rightarrow> buf @ ''?''))
            else buf)
         else buf @ nb)"

text \<open>The colour cache: \<^verbatim>\<open>if v, ok := t.colors[c]; ok {...} else {...}\<close>.\<close>

definition resolveColor :: "Externals \<Rightarrow> 'cb tScreen \<Rightarrow> Color \<Rightarrow> 'cb tScreen \<times> Color" where
  "resolveColor X t c =
     (if Valid c then
        (case t_colors t c of
           Some v \<Rightarrow> (t, v)
         | None \<Rightarrow>
             (let v = FindColor X c (t_palette t)
              in (t\<lparr>t_colors := (t_colors t)(c \<mapsto> v)\<rparr>, v)))
      else (t, c))"

definition sendFgBgPalette :: "Externals \<Rightarrow> 'cb tScreen \<Rightarrow> Color \<Rightarrow> Color \<Rightarrow> 'cb tScreen" where
  "sendFgBgPalette X t fg bg =
     (let ti = t_ti t;
          (t, fg) = resolveColor X t fg;
          (t, bg) = resolveColor X t bg
      in if Valid fg \<and> Valid bg \<and> SetFgBg ti \<noteq> [] then
           TPuts t (TParm ti (SetFgBg ti) [lowByte fg, lowByte bg])
         else
           (let t = (if Valid fg \<and> SetFg ti \<noteq> [] then TPuts t (TParm ti (SetFg ti) [lowByte fg])
                     else t);
                t = (if Valid bg \<and> SetBg ti \<noteq> [] then TPuts t (TParm ti (SetBg ti) [lowByte bg])
                     else t)
            in t))"

definition sendFgBg :: "Externals \<Rightarrow> 'cb tScreen \<Rightarrow> Color \<Rightarrow> Color \<Rightarrow> 'cb tScreen" where
  "sendFgBg X t fg bg =
     (let ti = t_ti t in
      if Colors ti = 0 then t
      else
        (let t = (if fg = ColorReset \<or> bg = ColorReset then TPuts t (ResetFgBg ti) else t) in
         if t_truecolor t then
           (if SetFgBgRGB ti \<noteq> [] \<and> IsRGB fg \<and> IsRGB bg then
              (let (r1, g1, b1) = RGB fg; (r2, g2, b2) = RGB bg
               in TPuts t (TParm ti (SetFgBgRGB ti) [r1, g1, b1, r2, g2, b2]))
            else
              (let (t, fg) =
                     (if IsRGB fg \<and> SetFgRGB ti \<noteq> [] then
                        (let (r, g, b) = RGB fg
                         in (TPuts t (TParm ti (SetFgRGB ti) [r, g, b]), ColorDefault))
                      else (t, fg));
                   (t, bg) =
                     (if IsRGB bg \<and> SetBgRGB ti \<noteq> [] then
                        (let (r, g, b) = RGB bg
                         in (TPuts t (TParm ti (SetBgRGB ti) [r, g, b]), ColorDefault))
                      else (t, bg))
               in sendFgBgPalette X t fg bg))
         else sendFgBgPalette X t fg bg))"

text \<open>The block of \<^verbatim>\<open>drawCell\<close> under \<^verbatim>\<open>if style != t.curstyle\<close>.\<close>

definition drawCellStyle :: "Externals \<Rightarrow> 'cb tScreen \<Rightarrow> Style \<Rightarrow> 'cb tScreen" where
  "drawCellStyle X t style =
     (let ti = t_ti t;
          (fg, bg, attrs) = Decompose style;
          t = TPuts t (AttrOff ti);
          t = sendFgBg X t fg bg;
          t = (if AttrBold \<in> attrs then TPuts t (Bold ti) else t);
          t = (if AttrUnderline \<in> attrs then TPuts t (Underline ti) else t);
          t = (if AttrReverse \<in> attrs then TPuts t (Reverse ti) else t);
          t = (if AttrBlink \<in> attrs then TPuts t (Blink ti) else t);
          t = (if AttrDim \<in> attrs then TPuts t (Dim ti) else t);
          t = (if AttrItalic \<in> attrs then TPuts t (Italic ti) else t);
          t = (if AttrStrikeThrough \<in> attrs then TPuts t (StrikeThrough ti) else t)
      in t\<lparr>t_curstyle := style\<rparr>)"

text \<open>
  \<^verbatim>\<open>drawCell\<close> on a dirty cell, from the cursor positioning down to the check for
  a full-width \<open>?\<close>: the screen, the string to write and the clamped width, as they
  are when the right-margin test \<^verbatim>\<open>x > t.w-width\<close> is reached.
\<close>

definition drawCellGlyph ::
  "'cb CellBufferMethods \<Rightarrow> Externals \<Rightarrow> 'cb tScreen \<Rightarrow> int \<Rightarrow> int \<Rightarrow>
     'cb tScreen \<times> string \<times> int" where
  "drawCellGlyph M X t x y =
     (let (mainc, combc, style, width) = GetContent M (t_cells t) x y;
          t = (if t_cy t \<noteq> y \<or> t_cx t \<noteq> x then
                 (TPuts t (TGoto (t_ti t) x y))\<lparr>t_cx := x, t_cy := y\<rparr>
               else t);
          style = (if style = StyleDefault then t_style t else style);
          t = (if style \<noteq> t_curstyle t then drawCellStyle X t style else t);
          width = (if width < 1 then 1 else width);
          buf = foldl (\<lambda>b r. encodeRune X t r b) (encodeRune X t mainc []) combc;
          str = buf
      in if width > 1 \<and> str = ''?'' then (t\<lparr>t_cx := -1\<rparr>, ''? '', width)
         else (t, str, width))"

definition drawCell ::
  "'cb CellBufferMethods \<Rightarrow> Externals \<Rightarrow> 'cb tScreen \<Rightarrow> int \<Rightarrow> int \<Rightarrow> 'cb tScreen \<times> int" where
  "drawCell M X t x y =
     (let (mainc, combc, style, width) = GetContent M (t_cells t) x y in
      if \<not> Dirty M (t_cells t) x y then (t, width)
      else
        (let (t, str, width) = drawCellGlyph M X t x y;
             (width, str) = (if x > t_w t - width then (1, '' '') else (width, str));
             t = writeString t str;
             t = t\<lparr>t_cx := t_cx t + width\<rparr>;
             t = t\<lparr>t_cells := SetDirty M (t_cells t) x y False\<rparr>;
             t = (if width > 1 then t\<lparr>t_cx := -1\<rparr> else t)
         in (t, width)))"

definition hideCursor :: "'cb CellBufferMethods \<Rightarrow> 'cb tScreen \<Rightarrow> 'cb tScreen" where
  "hideCursor M t =
     (if HideCursor (t_ti t) \<noteq> [] then TPuts t (HideCursor (t_ti t))
      else
        (let (cx, cy) = Size M (t_cells t);
             t = t\<lparr>t_cx := cx, t_cy := cy\<rparr>
         in TPuts t (TGoto (t_ti t) (t_cx t) (t_cy t))))"

definition showCursor :: "'cb CellBufferMethods \<Rightarrow> 'cb tScreen \<Rightarrow> 'cb tScreen" where
  "showCursor M t =
     (let x = t_cursorx t; y = t_cursory t;
          (w, h) = Size M (t_cells t)
      in if x < 0 \<or> y < 0 \<or> x \<ge> w \<or> y \<ge> h then hideCursor M t
         else
           (let t = TPuts t (TGoto (t_ti t) x y);
                t = TPuts t (ShowCursor (t_ti t))
            in t\<lparr>t_cx := x, t_cy := y\<rparr>))"

definition clearScreen :: "Externals \<Rightarrow> 'cb tScreen \<Rightarrow> 'cb tScreen" where
  "clearScreen X t =
     (let (fg, bg, attrs) = Decompose (t_style t);
          t = sendFgBg X t fg bg;
          t = TPuts t (Clear (t_ti t))
      in t\<lparr>t_clear := False\<rparr>)"

text \<open>
  The inner loop of \<^verbatim>\<open>draw\<close>, \<^verbatim>\<open>for x := 0; x < t.w; x++\<close>. The step is the width
  \<^verbatim>\<open>drawCell\<close> returns, which the cell buffer decides, so the loop is partial.
\<close>

partial_function (option) drawRow ::
  "'cb CellBufferMethods \<Rightarrow> Externals \<Rightarrow> 'cb tScreen \<Rightarrow> int \<Rightarrow> int \<Rightarrow> 'cb tScreen option" where
  "drawRow M X t x y =
     (if x < t_w t then
        (let (t1, width) = drawCell M X t x y;
             t2 = (if width > 1 \<and> x + 1 < t_w t1 then
                     t1\<lparr>t_cells := SetDirty M (t_cells t1) (x + 1) y True\<rparr>
                   else t1)
         in drawRow M X t2 (x + (width - 1) + 1) y)
      else Some t)"

declare drawRow.simps [code]

fun drawRows ::
  "'cb CellBufferMethods \<Rightarrow> Externals \<Rightarrow> 'cb tScreen \<Rightarrow> int list \<Rightarrow> 'cb tScreen option" where
  "drawRows M X t [] = Some t"
| "drawRows M X t (y # ys) =
     (case drawRow M X t 0 y of None \<Rightarrow> None | Some t1 \<Rightarrow> drawRows M X t1 ys)"

definition draw :: "'cb CellBufferMethods \<Rightarrow> Externals \<Rightarrow> 'cb tScreen \<Rightarrow> 'cb tScreen option" where
  "draw M X t =
     (let t = t\<lparr>t_cx := -1, t_cy := -1\<rparr>;
          t = t\<lparr>t_buf := [], t_buffering := True\<rparr>;
          t = hideCursor M t;
          t = (if t_clear t then clearScreen X t else t)
      in case drawRows M X t (map int [0 ..< nat (t_h t)]) of
           None \<Rightarrow> None
         | Some t \<Rightarrow>
             (let t = showCursor M t;
                  t = t\<lparr>t_out := t_out t @ t_buf t, t_buf := []\<rparr>
              in Some (t\<lparr>t_buffering := False\<rparr>)))"

text \<open>\<^verbatim>\<open>PostEvent\<close>: a send that does not block on the channel of capacity 10.\<close>

definition PostEvent :: "'cb tScreen \<Rightarrow> Event \<Rightarrow> 'cb tScreen \<times> bool" where
  "PostEvent t ev =
     (if length (t_evch t) < 10 then (t\<lparr>t_evch := t_evch t @ [ev]\<rparr>, True) else (t, False))"

definition resize :: "'cb CellBufferMethods \<Rightarrow> Externals \<Rightarrow> 'cb tScreen \<Rightarrow> 'cb tScreen" where
  "resize M X t =
     (case getWinSize X of
        None \<Rightarrow> t
      | Some (w, h) \<Rightarrow>
          if w \<noteq> t_w t \<or> h \<noteq> t_h t then
            (let t = t\<lparr>t_cx := -1, t_cy := -1\<rparr>;
                 t = t\<lparr>t_cells := ResizeCB M (t_cells t) w h\<rparr>;
                 t = t\<lparr>t_cells := Invalidate M (t_cells t)\<rparr>;
                 t = t\<lparr>t_h := h, t_w := w\<rparr>
             in fst (PostEvent t (EventResize w h)))
          else t)"

subsection \<open>The facade\<close>

text \<open>
  \<^verbatim>\<open>Fini\<close> runs \<^verbatim>\<open>finish\<close> through \<^verbatim>\<open>finiOnce\<close>, that is at most once; \<^verbatim>\<open>finish\<close>
  is the only place that sets \<open>fini\<close>, so a set flag says that it has run. Closing
  the quit channel and restoring the termios state are outside the model.
\<close>

definition finish :: "'cb CellBufferMethods \<Rightarrow> 'cb tScreen \<Rightarrow> 'cb tScreen" where
  "finish M t =
     (let ti = t_ti t;
          t = t\<lparr>t_cells := ResizeCB M (t_cells t) 0 0\<rparr>;
          t = TPuts t (ShowCursor ti);
          t = TPuts t (AttrOff ti);
          t = TPuts t (Clear ti);
          t = TPuts t (ExitCA ti);
          t = TPuts t (ExitKeypad ti);
          t = TPuts t (TParm ti (MouseMode ti) [0]);
          t = TPuts t pasteDisable
      in t\<lparr>t_curstyle := styleInvalid, t_clear := False, t_fini := True\<rparr>)"

definition Fini :: "'cb CellBufferMethods \<Rightarrow> 'cb tScreen \<Rightarrow> 'cb tScreen" where
  "Fini M t = (if t_fini t then t else finish M t)"

definition SetPaste :: "'cb tScreen \<Rightarrow> bool \<Rightarrow> 'cb tScreen" where
  "SetPaste t p = t\<lparr>t_paste := p\<rparr>"

definition RegisterRawSeq :: "'cb tScreen \<Rightarrow> string \<Rightarrow> 'cb tScreen" where
  "RegisterRawSeq t r = t\<lparr>t_rawseq := t_rawseq t @ [r]\<rparr>"

definition SetStyle :: "'cb tScreen \<Rightarrow> Style \<Rightarrow> 'cb tScreen" where
  "SetStyle t style = (if \<not> t_fini t then t\<lparr>t_style := style\<rparr> else t)"

definition Fill :: "'cb CellBufferMethods \<Rightarrow> 'cb tScreen \<Rightarrow> rune \<Rightarrow> Style \<Rightarrow> 'cb tScreen" where
  "Fill M t r style =
     (if \<not> t_fini t then t\<lparr>t_cells := FillCB M (t_cells t) r style\<rparr> else t)"

definition Clear_screen :: "'cb CellBufferMethods \<Rightarrow> 'cb tScreen \<Rightarrow> 'cb tScreen" where
  "Clear_screen M t = Fill M t 32 (t_style t)"

definition SetContent ::
  "'cb CellBufferMethods \<Rightarrow> 'cb tScreen \<Rightarrow> int \<Rightarrow> int \<Rightarrow> rune \<Rightarrow> rune list \<Rightarrow> Style \<Rightarrow>
     'cb tScreen" where
  "SetContent M t x y mainc combc style =
     (if \<not> t_fini t then t\<lparr>t_cells := SetContentCB M (t_cells t) x y mainc combc style\<rparr>
      else t)"

definition ShowCursor_at :: "'cb tScreen \<Rightarrow> int \<Rightarrow> int \<Rightarrow> 'cb tScreen" where
  "ShowCursor_at t x y = t\<lparr>t_cursorx := x, t_cursory := y\<rparr>"

definition HideCursor_op :: "'cb tScreen \<Rightarrow> 'cb tScreen" where
  "HideCursor_op t = ShowCursor_at t (-1) (-1)"

definition Show :: "'cb CellBufferMethods \<Rightarrow> Externals \<Rightarrow> 'cb tScreen \<Rightarrow> 'cb tScreen option" where
  "Show M X t = (if \<not> t_fini t then draw M X (resize M X t) else Some t)"

definition Sync :: "'cb CellBufferMethods \<Rightarrow> Externals \<Rightarrow> 'cb tScreen \<Rightarrow> 'cb tScreen option" where
  "Sync M X t =
     (let t = t\<lparr>t_cx := -1, t_cy := -1\<rparr> in
      if \<not> t_fini t then
        (let t = resize M X t;
             t = t\<lparr>t_clear := True\<rparr>;
             t = t\<lparr>t_cells := Invalidate M (t_cells t)\<rparr>
         in draw M X t)
      else Some t)"

definition RegisterRuneFallback :: "'cb tScreen \<Rightarrow> rune \<Rightarrow> string \<Rightarrow> 'cb tScreen" where
  "RegisterRuneFallback t orig fb = t\<lparr>t_fallback := (t_fallback t)(orig \<mapsto> fb)\<rparr>"

definition UnregisterRuneFallback :: "'cb tScreen \<Rightarrow> rune \<Rightarrow> 'cb tScreen" where
  "UnregisterRuneFallback t orig = t\<lparr>t_fallback := (t_fallback t)(orig := None)\<rparr>"

subsection \<open>A concrete terminal\<close>

text \<open>
  An xterm-like terminal of 80 columns and 24 rows, used to run the model on concrete
  input: a capability record with a mouse capability, a key table with the arrow keys
  and a few control keys, and a cell buffer that is only its size and holds a dirty
  full-width glyph in every cell.
\<close>

definition exampleTerminfo :: Terminfo where
  "exampleTerminfo =
     \<lparr>Colors = 256, Mouse = ESC # ''[M'', MouseMode = ''mouse'',
      HideCursor = ESC # ''[?25l'', ShowCursor = ESC # ''[?25h'',
      ExitCA = ESC # ''[?1049l'', ExitKeypad = ESC # ''[?1l'',
      AttrOff = ESC # ''[m'', Clear = ESC # ''[H'', Bold = ESC # ''[1m'',
      Underline = ESC # ''[4m'', Reverse = ESC # ''[7m'', Blink = ESC # ''[5m'',
      Dim = ESC # ''[2m'', Italic = ESC # ''[3m'', StrikeThrough = ESC # ''[9m'',
      ResetFgBg = ESC # ''[39;49m'', SetFg = ''fg'', SetBg = ''bg'', SetFgBg = ''fgbg'',
      SetFgRGB = [], SetBgRGB = [], SetFgBgRGB = [],
      TGoto = (\<lambda>x y. ESC # ''[H''), TParm = (\<lambda>s args. s), TPutsBytes = (\<lambda>s. s)\<rparr>"

definition exampleKeycodes :: "(string \<times> tKeyCode) list" where
  "exampleKeycodes =
     [(ESC # ''[A'', \<lparr>k_key = 257, k_mod = ModNone\<rparr>),
      (ESC # ''[B'', \<lparr>k_key = 258, k_mod = ModNone\<rparr>),
      (ESC # ''OP'', \<lparr>k_key = 279, k_mod = ModNone\<rparr>),
      ([CHR 0x01], \<lparr>k_key = 1, k_mod = {ModCtrl}\<rparr>),
      ([CHR 0x0D], \<lparr>k_key = 13, k_mod = ModNone\<rparr>)]"

definition exampleMethods :: "(int \<times> int) CellBufferMethods" where
  "exampleMethods =
     \<lparr>Size = (\<lambda>cb. cb),
      GetContent = (\<lambda>cb x y. (0x4E2D, [], StyleDefault, 2)),
      Dirty = (\<lambda>cb x y. True),
      SetDirty = (\<lambda>cb x y d. cb),
      SetContentCB = (\<lambda>cb x y mainc combc style. cb),
      FillCB = (\<lambda>cb r style. cb),
      ResizeCB = (\<lambda>cb w h. (w, h)),
      Invalidate = (\<lambda>cb. cb)\<rparr>"

definition exampleExternals :: Externals where
  "exampleExternals =
     \<lparr>utf8EncodeRune =
        (\<lambda>r. if r = 0x4E2D then [CHR 0xE4, CHR 0xB8, CHR 0xAD] else [CHR ''?'']),
      FindColor = (\<lambda>c palette. PaletteIndex 0),
      getWinSize = Some (80, 24)\<rparr>"

definition exampleDecodeRune :: "string \<Rightarrow> rune" where
  "exampleDecodeRune s = (case s of [] \<Rightarrow> RuneError | c # cs \<Rightarrow> int (of_char c))"

definition exampleScreen :: "(int \<times> int) tScreen" where
  "exampleScreen =
     \<lparr>t_ti = exampleTerminfo, t_h = 24, t_w = 80, t_fini = False, t_cells = (80, 24),
      t_out = [], t_buffering = False, t_buf = [], t_escbuf = [], t_paste = False,
      t_curstyle = StyleDefault, t_style = StyleDefault, t_evch = [],
      t_keyexist = {257, 258, 279, 1, 13}, t_keycodes = exampleKeycodes,
      t_cx = -1, t_cy = -1, t_clear = False, t_cursorx = -1, t_cursory = -1,
      t_wasbtn = False, t_acs = Map.empty,
      t_encoder = Some (\<lambda>src. \<lparr>dstBytes = src, nSrc = length src, errShortSrc = False,
                                    isErr = False\<rparr>),
      t_decoder = (\<lambda>src. \<lparr>dstBytes = src, nSrc = length src, errShortSrc = False,
                              isErr = False\<rparr>),
      t_fallback = Map.empty, t_colors = Map.empty, t_palette = [], t_truecolor = False,
      t_escaped = False, t_buttondn = False, t_rawseq = []\<rparr>"

subsection \<open>Predicates used in the statements\<close>

text \<open>A mouse event lies inside a screen of \<open>w\<close> columns and \<open>h\<close> rows.\<close>

definition mouseInRange :: "int \<Rightarrow> int \<Rightarrow> Event \<Rightarrow> bool" where
  "mouseInRange w h ev =
     (case ev of
        EventMouse x y b m r \<Rightarrow> 0 \<le> x \<and> x \<le> w - 1 \<and> 0 \<le> y \<and> y \<le> h - 1
      | _ \<Rightarrow> True)"

text \<open>
  A parsing step keeps the cell buffer, and keeps the events in range if they were.
\<close>

definition keeps ::
  "int \<Rightarrow> int \<Rightarrow> 'cb tScreen \<Rightarrow> Event list \<Rightarrow> 'cb tScreen \<Rightarrow> Event list \<Rightarrow> bool" where
  "keeps w h t evs t' evs' =
     (t_cells t' = t_cells t \<and>
      (list_all (mouseInRange w h) evs \<longrightarrow> list_all (mouseInRange w h) evs'))"

text \<open>
  The function-key parser cannot complete on the buffer \<open>b\<close>: apart from the lone
  \<open>ESC\<close>, which it skips, no sequence of the key table is a prefix of \<open>b\<close>.
\<close>

definition keysSilent :: "(string \<times> tKeyCode) list \<Rightarrow> string \<Rightarrow> bool" where
  "keysSilent kc b = list_all (\<lambda>e. fst e = [ESC] \<or> \<not> prefix (fst e) b) kc"

text \<open>No registered raw sequence is a prefix of the buffer \<open>b\<close>.\<close>

definition rawSilent :: "string list \<Rightarrow> string \<Rightarrow> bool" where
  "rawSilent rs b = (find (\<lambda>r. prefix r b) rs = None)"

text \<open>
  The registers the code accepts: a non-empty string whose first byte is \<open>c\<close> or
  \<open>p\<close>.
\<close>

definition registerAccepted :: "string \<Rightarrow> bool" where
  "registerAccepted register =
     (case register of [] \<Rightarrow> False | r # rs \<Rightarrow> r = CHR ''c'' \<or> r = CHR ''p'')"

text \<open>The valid registers in the spec's words: \<open>c\<close> (clipboard) and \<open>p\<close> (primary).\<close>

definition validRegister :: "string \<Rightarrow> bool" where
  "validRegister register = (register = ''c'' \<or> register = ''p'')"

text \<open>
  Two screens agree on what positions the renderer: the width, the cached cursor, the
  cell buffer, the capability record and the buffering flag.
\<close>

definition sameFrame :: "'cb tScreen \<Rightarrow> 'cb tScreen \<Rightarrow> bool" where
  "sameFrame t t' = (t_w t' = t_w t \<and> t_cx t' = t_cx t \<and> t_cy t' = t_cy t \<and>
     t_cells t' = t_cells t \<and> t_ti t' = t_ti t \<and> t_buffering t' = t_buffering t)"

section \<open>Properties\<close>

lemmas example_defs = exampleScreen_def exampleTerminfo_def exampleKeycodes_def
  exampleMethods_def exampleDecodeRune_def exampleExternals_def

lemmas byte_defs = ESC_def CSI8_def CR_def LF_def pasteBegin_def pasteEnd_def
  pasteOSC52Begin_def pasteOSC52End_def

lemmas parser_defs = collectEventsFromInput_def collectIter_def keyParsers_def
  mouseParsers_def catchAll_def countPartial_def parseOSC52Paste_def parseBracketedPaste_def
  parseRune_def parseFunctionKey_def parseXtermMouse_def parseSgrMouse_def buildMouseEvent_def
  clip_def mouseButton_def mouseMod_def readInto_def ReplaceCR_def isDigit_def int64_def
  KeyEsc_def KeyRune_def ModNone_def parsePaste_def

subsection \<open>Mouse coordinates stay on the screen\<close>

lemma buildMouseEvent_keeps:
  assumes "buildMouseEvent M t1 x y btn = (t2, ev)"
    and "Size M (t_cells t1) = (w, h)" "1 \<le> w" "1 \<le> h"
  shows "t_cells t2 = t_cells t1 \<and> mouseInRange w h ev"
  using assms
  by (auto simp: buildMouseEvent_def Let_def mouseInRange_def clip_def split: prod.splits)

lemma parseXtermMouse_keeps:
  assumes "Size M (t_cells t) = (w, h)" "1 \<le> w" "1 \<le> h"
    and "parseXtermMouse M t b evs = (pc, t', b', evs')"
  shows "keeps w h t evs t' evs'"
  using assms(4)
  by (auto simp: parseXtermMouse_def keeps_def Let_def assms(1,2,3)
      split: prod.splits scanned.splits dest!: buildMouseEvent_keeps [where w = w and h = h])

lemma parseSgrMouse_keeps:
  assumes "Size M (t_cells t) = (w, h)" "1 \<le> w" "1 \<le> h"
    and "parseSgrMouse M t b evs = (pc, t', b', evs')"
  shows "keeps w h t evs t' evs'"
  using assms(4)
  by (auto simp: parseSgrMouse_def keeps_def Let_def assms(1,2,3)
      split: prod.splits scanned.splits if_splits dest!: buildMouseEvent_keeps [where w = w and h = h])


lemma keeps_refl: "keeps w h t evs t evs"
  by (simp add: keeps_def)

lemma keeps_trans: "keeps w h t evs t1 evs1 \<Longrightarrow> keeps w h t1 evs1 t2 evs2 \<Longrightarrow> keeps w h t evs t2 evs2"
  by (simp add: keeps_def)

lemma functionKeyRange_keeps:
  "functionKeyRange kc p t b evs = (pc, t', b', evs') \<Longrightarrow> keeps w h t evs t' evs'"
  by (induction kc p t b evs rule: functionKeyRange.induct)
     (auto simp: keeps_def Let_def mouseInRange_def split: if_splits prod.splits)

lemma parseFunctionKey_keeps:
  "parseFunctionKey t b evs = (pc, t', b', evs') \<Longrightarrow> keeps w h t evs t' evs'"
  unfolding parseFunctionKey_def by (rule functionKeyRange_keeps)

lemma runeDecode_keeps:
  "runeDecode dr ls t b evs = (pc, t', b', evs') \<Longrightarrow> keeps w h t evs t' evs'"
  by (induction dr ls t b evs rule: runeDecode.induct)
     (auto simp: keeps_def Let_def mouseInRange_def split: if_splits prod.splits)

lemma parseRune_keeps:
  "parseRune dr t b evs = Some (pc, t', b', evs') \<Longrightarrow> keeps w h t evs t' evs'"
  by (auto simp: parseRune_def Let_def keeps_refl split: list.splits if_splits prod.splits
      dest: runeDecode_keeps)
     (auto simp: keeps_def mouseInRange_def)

lemma parsePaste_keeps:
  "parsePaste t b evs = Some (pasted, t', b', evs') \<Longrightarrow> keeps w h t evs t' evs'"
  by (auto simp: parsePaste_def Let_def keeps_def mouseInRange_def
      split: list.splits if_splits prod.splits)

lemma parseOSC52Paste_keeps:
  "parseOSC52Paste t b evs = (pc, t', b', evs') \<Longrightarrow> keeps w h t evs t' evs'"
  by (auto simp: parseOSC52Paste_def Let_def keeps_def mouseInRange_def
      split: if_splits option.splits)

lemma parseBracketedPaste_keeps:
  "parseBracketedPaste t b evs = (pc, t', b', evs') \<Longrightarrow> keeps w h t evs t' evs'"
  by (auto simp: parseBracketedPaste_def Let_def keeps_def mouseInRange_def
      split: if_splits)

lemma catchAll_keeps:
  "catchAll t b evs = Some (t', b', evs') \<Longrightarrow> keeps w h t evs t' evs'"
  by (auto simp: catchAll_def Let_def keeps_def mouseInRange_def
      split: list.splits if_splits option.splits prod.splits)

lemma mouseParsers_keeps:
  assumes "Size M (t_cells t) = (w, h)" "1 \<le> w" "1 \<le> h"
    and "mouseParsers M expire n t b evs = Some (again, t', b', evs')"
  shows "keeps w h t evs t' evs'"
proof -
  obtain pc1 t1 b1 e1 where x: "parseXtermMouse M t b evs = (pc1, t1, b1, e1)"
    by (metis prod_cases4)
  have k1: "keeps w h t evs t1 e1" by (rule parseXtermMouse_keeps [OF assms(1,2,3) x])
  then have s1: "Size M (t_cells t1) = (w, h)" using assms(1) by (simp add: keeps_def)
  obtain pc2 t2 b2 e2 where y: "parseSgrMouse M t1 b1 e1 = (pc2, t2, b2, e2)"
    by (metis prod_cases4)
  have k2: "keeps w h t1 e1 t2 e2" by (rule parseSgrMouse_keeps [OF s1 assms(2,3) y])
  have k12: "keeps w h t evs t2 e2" by (rule keeps_trans [OF k1 k2])
  show ?thesis
    using assms(4) x y k1 k12
    by (auto simp: mouseParsers_def split: prod.splits if_splits
        dest!: catchAll_keeps [where w = w and h = h] intro: keeps_trans)
qed

lemma keyParsers_keeps:
  assumes "Size M (t_cells t) = (w, h)" "1 \<le> w" "1 \<le> h"
    and "keyParsers dr M expire n t b evs = Some (again, t', b', evs')"
  shows "keeps w h t evs t' evs'"
proof -
  obtain pc1 t1 b1 e1 where x: "parseRune dr t b evs = Some (pc1, t1, b1, e1)"
    using assms(4) by (auto simp: keyParsers_def split: option.splits)
  have k1: "keeps w h t evs t1 e1" by (rule parseRune_keeps [OF x])
  obtain pc2 t2 b2 e2 where y: "parseFunctionKey t1 b1 e1 = (pc2, t2, b2, e2)"
    by (metis prod_cases4)
  have k2: "keeps w h t1 e1 t2 e2" by (rule parseFunctionKey_keeps [OF y])
  have k12: "keeps w h t evs t2 e2" by (rule keeps_trans [OF k1 k2])
  then have s2: "Size M (t_cells t2) = (w, h)" using assms(1) by (simp add: keeps_def)
  show ?thesis
    using assms(4) x y k1 k12
    by (auto simp: keyParsers_def Let_def split: prod.splits if_splits
        dest!: catchAll_keeps [where w = w and h = h]
               mouseParsers_keeps [OF s2 assms(2,3)] intro: keeps_trans)
qed

lemma collectIter_keeps:
  assumes "Size M (t_cells t) = (w, h)" "1 \<le> w" "1 \<le> h"
    and "collectIter dr M expire t b evs = Some (again, t', b', evs')"
  shows "keeps w h t evs t' evs'"
proof -
  obtain pasted t0 b0 e0 where
    p: "(if t_paste t then parsePaste t b evs else Some (False, t, b, evs)) = Some (pasted, t0, b0, e0)"
    using assms(4) by (auto simp: collectIter_def split: option.splits)
  have k0: "keeps w h t evs t0 e0"
    using p by (auto split: if_splits intro: keeps_refl dest: parsePaste_keeps)
  obtain pc1 t1 b1 e1 where x: "parseOSC52Paste t0 b0 e0 = (pc1, t1, b1, e1)"
    by (metis prod_cases4)
  have k1: "keeps w h t evs t1 e1" by (rule keeps_trans [OF k0 parseOSC52Paste_keeps [OF x]])
  obtain pc2 t2 b2 e2 where y: "parseBracketedPaste t1 b1 e1 = (pc2, t2, b2, e2)"
    by (metis prod_cases4)
  have k2: "keeps w h t evs t2 e2" by (rule keeps_trans [OF k1 parseBracketedPaste_keeps [OF y]])
  then have s2: "Size M (t_cells t2) = (w, h)" using assms(1) by (simp add: keeps_def)
  show ?thesis
    using assms(4) p x y k0 k1 k2
    by (auto simp: collectIter_def Let_def split: prod.splits if_splits
        dest!: keyParsers_keeps [OF s2 assms(2,3)] intro: keeps_trans)
qed

lemma collectLoop_keeps_aux:
  assumes major: "collectLoop dr0 M0 expire0 t0 b0 evs0 = Some r0"
  shows "Size M0 (t_cells t0) = (w, h) \<longrightarrow> 1 \<le> w \<longrightarrow> 1 \<le> h \<longrightarrow>
         keeps w h t0 evs0 (fst r0) (snd (snd r0))"
proof (rule collectLoop.raw_induct
    [where P = "\<lambda>dr M expire t b evs r. Size M (t_cells t) = (w, h) \<longrightarrow> 1 \<le> w \<longrightarrow> 1 \<le> h \<longrightarrow>
         keeps w h t evs (fst r) (snd (snd r))", OF _ major], goal_cases)
  case (1 loop dr M expire t b evs r)
  show ?case
  proof (intro impI)
    assume sz: "Size M (t_cells t) = (w, h)" and w: "1 \<le> w" and h: "1 \<le> h"
    show "keeps w h t evs (fst r) (snd (snd r))"
    proof (cases "b = []")
      case True
      with 1(2) show ?thesis by (auto simp: keeps_refl)
    next
      case False
      with 1(2) obtain again t' b' evs' where
        it: "collectIter dr M expire t b evs = Some (again, t', b', evs')"
        by (auto split: option.splits)
      have k: "keeps w h t evs t' evs'"
        by (rule collectIter_keeps [OF sz w h it])
      then have s: "Size M (t_cells t') = (w, h)" using sz by (simp add: keeps_def)
      show ?thesis
      proof (cases again)
        case True
        with 1(2) False it have "loop dr M expire t' b' evs' = Some r" by simp
        from 1(1) [OF this] s w h have "keeps w h t' evs' (fst r) (snd (snd r))" by simp
        with k show ?thesis by (rule keeps_trans)
      next
        case False
        with 1(2) \<open>b \<noteq> []\<close> it k show ?thesis by auto
      qed
    qed
  qed
qed

lemma collectLoop_keeps:
  assumes "collectLoop dr M expire t b evs = Some r"
    and "Size M (t_cells t) = (w, h)" "1 \<le> w" "1 \<le> h"
  shows "keeps w h t evs (fst r) (snd (snd r))"
  using collectLoop_keeps_aux [OF assms(1)] assms(2,3,4) by simp

text \<open>
  C10. Every mouse event that a scan returns lies inside the screen: when the cell
  buffer has \<open>w \<ge> 1\<close> columns and \<open>h \<ge> 1\<close> rows, each \<open>EventMouse x y\<close> in the
  result of \<open>collectEventsFromInput\<close> has \<open>0 \<le> x \<le> w - 1\<close> and
  \<open>0 \<le> y \<le> h - 1\<close>, whatever coordinates the X10 or SGR report carried.
\<close>

theorem mouse_events_clipped:
  assumes "collectEventsFromInput dr M t b expire = Some (t', b', evs)"
    and "Size M (t_cells t) = (w, h)" "1 \<le> w" "1 \<le> h"
  shows "\<forall>ev \<in> set evs. mouseInRange w h ev"
  using collectLoop_keeps [OF assms(1) [unfolded collectEventsFromInput_def] assms(2,3,4)]
  by (simp add: keeps_def list_all_iff)

theorem mouse_events_clipped_witness:
  "collectEventsFromInput exampleDecodeRune exampleMethods exampleScreen
     (ESC # ''[<0;-5;999M'') False =
     Some (exampleScreen\<lparr>t_wasbtn := True, t_buttondn := True\<rparr>, [],
           [EventMouse 0 23 Button1 {} (ESC # ''[<0;-5;999M'')]) \<and>
   Size exampleMethods (t_cells exampleScreen) = (80, 24) \<and>
   mouseInRange 80 24 (EventMouse 0 23 Button1 {} (ESC # ''[<0;-5;999M''))"
proof -
  have run: "collectEventsFromInput exampleDecodeRune exampleMethods exampleScreen
     (ESC # ''[<0;-5;999M'') False =
     Some (exampleScreen\<lparr>t_wasbtn := True, t_buttondn := True\<rparr>, [],
           [EventMouse 0 23 Button1 {} (ESC # ''[<0;-5;999M'')])"
    by (simp add: parser_defs collectLoop.simps example_defs byte_defs Let_def)
  have sz: "Size exampleMethods (t_cells exampleScreen) = (80, 24)"
    by (simp add: example_defs)
  from mouse_events_clipped [OF run sz] run sz show ?thesis by simp
qed

subsection \<open>The X10 mouse record\<close>






subsection \<open>Base64 and the OSC 52 round trip\<close>

lemma IndexByte_nth:
  "distinct xs \<Longrightarrow> n < length xs \<Longrightarrow> IndexByte xs (xs ! n) = int n"
proof (induction xs arbitrary: n)
  case Nil
  then show ?case by simp
next
  case (Cons x xs)
  show ?case
  proof (cases n)
    case 0
    then show ?thesis by simp
  next
    case (Suc m)
    with Cons.prems have "xs ! m \<noteq> x" "IndexByte xs (xs ! m) = int m"
      using Cons.IH [of m] by (auto simp: in_set_conv_nth)
    with Suc show ?thesis by (simp add: Let_def)
  qed
qed

lemma distinct_encodeStd: "distinct encodeStd"
  by (simp add: encodeStd_def)

lemma length_encodeStd: "length encodeStd = 64"
  by (simp add: encodeStd_def)

lemma decodeMap_enc6: "n < 64 \<Longrightarrow> decodeMap (enc6 n) = Some n"
  by (simp add: decodeMap_def enc6_def IndexByte_nth distinct_encodeStd length_encodeStd)

lemma enc6_in: "enc6 n \<in> set encodeStd"
  by (simp add: enc6_def length_encodeStd)

lemma enc6_neq [simp]: "enc6 n \<noteq> CHR ''=''" "enc6 n \<noteq> ESC" "enc6 n \<noteq> CR" "enc6 n \<noteq> LF"
  using enc6_in [of n] by (auto simp: encodeStd_def ESC_def CR_def LF_def)

lemma of_char_lt: "(of_char (c::char) :: nat) < 256"
  by (metis of_char_of char_of_def  mod_less_divisor zero_less_numeral of_char_mod_256)


lemma quantum3:
  fixes a b c :: nat
  assumes "a < 256" "b < 256" "c < 256"
  shows "a div 4 < 64" "a mod 4 * 16 + b div 16 < 64" "b mod 16 * 4 + c div 64 < 64" "c mod 64 < 64"
    "a mod 4 * 16 < 64" "b mod 16 * 4 < 64"
    "a div 4 * 4 + (a mod 4 * 16 + b div 16) div 16 = a"
    "(a mod 4 * 16 + b div 16) mod 16 * 16 + (b mod 16 * 4 + c div 64) div 4 = b"
    "(b mod 16 * 4 + c div 64) mod 4 * 64 + c mod 64 = c"
    "a div 4 * 4 + (a mod 4 * 16) div 16 = a"
    "(a mod 4 * 16 + b div 16) mod 16 * 16 + (b mod 16 * 4) div 4 = b"
  using assms by simp_all

lemma decodeQuanta_full:
  assumes "s0 < 64" "s1 < 64" "s2 < 64" "s3 < 64"
  shows "decodeQuanta (enc6 s0 # enc6 s1 # enc6 s2 # enc6 s3 # r) =
           map_option (\<lambda>r. [char_of (s0 * 4 + s1 div 16), char_of ((s1 mod 16) * 16 + s2 div 4),
                             char_of ((s2 mod 4) * 64 + s3)] @ r) (decodeQuanta r)"
  using assms by (cases "decodeQuanta r") (simp_all add: decodeMap_enc6)

lemma decodeQuanta_pad1:
  assumes "s0 < 64" "s1 < 64" "s2 < 64"
  shows "decodeQuanta [enc6 s0, enc6 s1, enc6 s2, CHR ''=''] =
           Some [char_of (s0 * 4 + s1 div 16), char_of ((s1 mod 16) * 16 + s2 div 4)]"
  using assms by (simp add: decodeMap_enc6)

lemma decodeQuanta_pad2:
  assumes "s0 < 64" "s1 < 64"
  shows "decodeQuanta [enc6 s0, enc6 s1, CHR ''='', CHR ''=''] = Some [char_of (s0 * 4 + s1 div 16)]"
  using assms by (simp add: decodeMap_enc6)

lemma decodeQuanta_EncodeToString: "decodeQuanta (EncodeToString s) = Some s"
proof (induction s rule: EncodeToString.induct)
  case (1 a b c rest)
  note q = quantum3 [OF of_char_lt [of a] of_char_lt [of b] of_char_lt [of c]]
  have "decodeQuanta (EncodeToString (a # b # c # rest)) =
          map_option (\<lambda>r. [char_of (of_char a :: nat), char_of (of_char b :: nat),
                            char_of (of_char c :: nat)] @ r)
            (decodeQuanta (EncodeToString rest))"
    by (simp only: EncodeToString.simps append_Cons append_Nil
        decodeQuanta_full [OF q(1) q(2) q(3) q(4)] q(7) q(8) q(9))
  then show ?case using 1 by simp
next
  case (2 a b)
  note q = quantum3 [OF of_char_lt [of a] of_char_lt [of b] of_char_lt [of b]]
  have "decodeQuanta (EncodeToString [a, b]) =
          Some [char_of (of_char a :: nat), char_of (of_char b :: nat)]"
    by (simp only: EncodeToString.simps decodeQuanta_pad1 [OF q(1) q(2) q(6)] q(7) q(11))
  then show ?case by simp
next
  case (3 a)
  note q = quantum3 [OF of_char_lt [of a] of_char_lt [of a] of_char_lt [of a]]
  have "decodeQuanta (EncodeToString [a]) = Some [char_of (of_char a :: nat)]"
    by (simp only: EncodeToString.simps decodeQuanta_pad2 [OF q(1) q(5)] q(10))
  then show ?case by simp
next
  case 4
  show ?case by simp
qed

lemma EncodeToString_set: "set (EncodeToString s) \<subseteq> insert (CHR ''='') (set encodeStd)"
  by (induction s rule: EncodeToString.induct) (auto simp: enc6_in)

lemma EncodeToString_chars:
  "ESC \<notin> set (EncodeToString s)" "CR \<notin> set (EncodeToString s)" "LF \<notin> set (EncodeToString s)"
  using EncodeToString_set [of s] by (auto simp: encodeStd_def ESC_def CR_def LF_def)

lemma Decode_EncodeToString: "Decode (EncodeToString s) = Some s"
proof -
  have "filter (\<lambda>c. c \<noteq> CR \<and> c \<noteq> LF) (EncodeToString s) = EncodeToString s"
    using EncodeToString_chars [of s] by (auto simp: filter_id_conv)
  then show ?thesis by (simp add: Decode_def decodeQuanta_EncodeToString)
qed

lemma Index_no_first:
  "sub \<noteq> [] \<Longrightarrow> hd sub \<notin> set u \<Longrightarrow> Index (u @ sub @ v) sub = int (length u)"
proof (induction u)
  case Nil
  then show ?case by (cases sub) simp_all
next
  case (Cons x u)
  then have "\<not> prefix sub (x # u @ sub @ v)"
    by (cases sub) simp_all
  with Cons show ?case by (simp add: Let_def)
qed


lemma Index_pasteSet:
  "Index (pasteSet (CHR ''c'') (EncodeToString tx)) pasteOSC52End =
     7 + int (length (EncodeToString tx))"
proof -
  let ?u = "'']52;c;'' @ EncodeToString tx"
  have h: "hd pasteOSC52End \<notin> set ?u"
    using EncodeToString_chars(1) [of tx] by (simp add: pasteOSC52End_def ESC_def)
  have "Index (?u @ pasteOSC52End @ []) pasteOSC52End = int (length ?u)"
    by (rule Index_no_first [OF _ h]) (simp add: pasteOSC52End_def)
  then show ?thesis
    by (simp add: pasteSet_def pasteOSC52End_def Let_def ESC_def)
qed

lemma middle_of_append:
  "length pre = k \<Longrightarrow> drop k (take (k + length x) (pre @ x @ post)) = x"
  "length pre = k \<Longrightarrow> drop (length post) (drop (k + length x) (pre @ x @ post)) = []"
  by simp_all

lemma pasteSet_append:
  "pasteSet (CHR ''c'') s = (ESC # '']52;c;'') @ s @ pasteOSC52End"
  by (simp add: pasteSet_def pasteOSC52End_def)

lemma parseOSC52Paste_pasteSet:
  "parseOSC52Paste t (pasteSet (CHR ''c'') (EncodeToString tx)) evs =
     ((True, True), t\<lparr>t_escbuf := []\<rparr>, [],
      evs @ [EventPaste tx (t_escbuf t @ pasteSet (CHR ''c'') (EncodeToString tx))])"
proof -
  have p: "prefix pasteOSC52Begin (pasteSet (CHR ''c'') (EncodeToString tx))"
    by (simp add: pasteOSC52Begin_def pasteSet_def)
  have k: "length (ESC # '']52;c;'') = 7" by simp
  have d: "drop 7 (take (7 + length (EncodeToString tx))
             (pasteSet (CHR ''c'') (EncodeToString tx))) = EncodeToString tx"
    unfolding pasteSet_append by (rule middle_of_append(1) [OF k])
  have r: "drop (length pasteOSC52End) (drop (7 + length (EncodeToString tx))
             (pasteSet (CHR ''c'') (EncodeToString tx))) = []"
    unfolding pasteSet_append by (rule middle_of_append(2) [OF k])
  have n: "nat (7 + int (length (EncodeToString tx))) = 7 + length (EncodeToString tx)"
    by simp
  have l: "length pasteOSC52Begin + 2 = 7" by (simp add: pasteOSC52Begin_def)
  show ?thesis
    unfolding parseOSC52Paste_def Let_def Index_pasteSet n l
    using p d r by (simp add: Decode_EncodeToString)
qed

lemma parsePaste_ESC:
  "parsePaste t (ESC # bs) evs = Some (False, t, ESC # bs, evs)"
  by (simp add: parsePaste_def)

lemma pasteSet_Cons: "pasteSet r s = ESC # '']52;'' @ [r] @ '';'' @ s @ [ESC, CHR 0x5C]"
  by (simp add: pasteSet_def)

lemma collectIter_pasteSet:
  "collectIter dr M expire t (pasteSet (CHR ''c'') (EncodeToString tx)) evs =
     Some (True, t\<lparr>t_escbuf := []\<rparr>, [],
      evs @ [EventPaste tx (t_escbuf t @ pasteSet (CHR ''c'') (EncodeToString tx))])"
proof -
  have "(if t_paste t then parsePaste t (pasteSet (CHR ''c'') (EncodeToString tx)) evs
         else Some (False, t, pasteSet (CHR ''c'') (EncodeToString tx), evs)) =
        Some (False, t, pasteSet (CHR ''c'') (EncodeToString tx), evs)"
    by (simp add: pasteSet_Cons parsePaste_ESC)
  then show ?thesis
    by (simp add: collectIter_def parseOSC52Paste_pasteSet)
qed

text \<open>
  C6. OSC 52 payloads round-trip. \<open>SetClipboard t tx "c"\<close> writes the clear sequence
  and then \<open>ESC ] 5 2 ; c ;\<close> followed by the base64 of the text and \<open>ESC \\<close>. A scan
  of a buffer holding exactly that sequence returns, in any screen state and for either
  value of \<open>expire\<close>, exactly one Paste event whose text is the original text, and
  leaves the buffer empty. The base64 of \<open>hello\<close> is \<open>aGVsbG8=\<close>.
\<close>

theorem osc52_round_trip:
  "fst (SetClipboard t tx ''c'') =
     TPuts (TPuts t (pasteClear (CHR ''c''))) (pasteSet (CHR ''c'') (EncodeToString tx))
   \<and> pasteSet (CHR ''c'') (EncodeToString tx) =
       ESC # '']52;c;'' @ EncodeToString tx @ [ESC, CHR 0x5C]
   \<and> collectEventsFromInput dr M t (pasteSet (CHR ''c'') (EncodeToString tx)) expire =
       Some (t\<lparr>t_escbuf := []\<rparr>, [],
             [EventPaste tx (t_escbuf t @ pasteSet (CHR ''c'') (EncodeToString tx))])
   \<and> EncodeToString ''hello'' = ''aGVsbG8=''
   \<and> collectEventsFromInput dr M t (ESC # '']52;c;aGVsbG8='' @ [ESC, CHR 0x5C]) expire =
       Some (t\<lparr>t_escbuf := []\<rparr>, [],
             [EventPaste ''hello'' (t_escbuf t @ ESC # '']52;c;aGVsbG8='' @ [ESC, CHR 0x5C])])"
proof -
  have ne: "\<And>s. pasteSet (CHR ''c'') (EncodeToString s) \<noteq> []" by (simp add: pasteSet_def)
  have g: "\<And>s. collectEventsFromInput dr M t (pasteSet (CHR ''c'') (EncodeToString s)) expire =
       Some (t\<lparr>t_escbuf := []\<rparr>, [],
             [EventPaste s (t_escbuf t @ pasteSet (CHR ''c'') (EncodeToString s))])"
    unfolding collectEventsFromInput_def
    by (subst collectLoop.simps, simp add: ne collectIter_pasteSet, subst collectLoop.simps, simp)
  have h: "pasteSet (CHR ''c'') (EncodeToString ''hello'') =
             ESC # '']52;c;aGVsbG8='' @ [ESC, CHR 0x5C]"
    by (simp add: pasteSet_def enc6_def encodeStd_def)
  from g [of tx] g [of "''hello''", unfolded h] show ?thesis
    by (simp add: SetClipboard_def Let_def pasteSet_def enc6_def encodeStd_def)
qed

subsection \<open>Bracketed paste\<close>

lemma Index_no_occurrence:
  assumes "sub \<noteq> []" "hd sub \<notin> set (tl sub)" "\<not> sublist sub u"
  shows "Index (u @ sub) sub = int (length u)"
  using assms(3)
proof (induction u)
  case Nil
  with assms(1) show ?case by (cases sub) simp_all
next
  case (Cons x u)
  have np: "\<not> prefix sub (x # u @ sub)"
  proof
    assume "prefix sub (x # u @ sub)"
    then have "prefix sub ((x # u) @ sub)" by simp
    then consider "prefix sub (x # u)" | us where "sub = (x # u) @ us" "prefix us sub"
      unfolding prefix_append by blast
    then show False
    proof cases
      case 1
      then show ?thesis using Cons.prems by (meson prefix_imp_sublist)
    next
      case 2
      show ?thesis
      proof (cases us)
        case Nil
        with 2 Cons.prems show ?thesis by simp
      next
        case (Cons y ys)
        with 2(2) assms(1) have "hd sub = y" by (cases sub) auto
        moreover from 2(1) Cons have "y \<in> set (tl sub)" by simp
        ultimately show ?thesis using assms(2) by simp
      qed
    qed
  qed
  from Cons.prems have "\<not> sublist sub u" by (meson sublist_Cons_right)
  with Cons.IH np show ?case by (simp add: Let_def)
qed

lemma prefix_map_back:
  assumes "\<forall>c \<in> set pat. \<forall>z. f z = c \<longrightarrow> z = c"
  shows "prefix pat (map f xs) \<Longrightarrow> prefix pat xs"
  using assms
proof (induction pat arbitrary: xs)
  case Nil
  then show ?case by simp
next
  case (Cons p ps)
  then show ?case by (cases xs) auto
qed

lemma sublist_map_back:
  assumes "\<forall>c \<in> set pat. \<forall>z. f z = c \<longrightarrow> z = c"
  shows "sublist pat (map f xs) \<Longrightarrow> sublist pat xs"
proof (induction xs)
  case Nil
  then show ?case by simp
next
  case (Cons x xs)
  from Cons.prems have "prefix pat (map f (x # xs)) \<or> sublist pat (map f xs)"
    by (simp add: sublist_Cons_right)
  then show ?case
  proof
    assume "prefix pat (map f (x # xs))"
    then have "prefix pat (x # xs)" by (rule prefix_map_back [OF assms])
    then show ?thesis by (simp add: sublist_Cons_right)
  next
    assume "sublist pat (map f xs)"
    then have "sublist pat xs" by (rule Cons.IH)
    then show ?thesis by (simp add: sublist_Cons_right)
  qed
qed

lemma sublist_ReplaceCR:
  assumes "sublist pasteEnd (ReplaceCR P)"
  shows "sublist pasteEnd P"
proof -
  have "\<forall>c \<in> set pasteEnd. \<forall>z. (if z = CR then LF else z) = c \<longrightarrow> z = c"
    by (auto simp: pasteEnd_def ESC_def CR_def LF_def)
  from sublist_map_back [OF this] assms show ?thesis
    by (simp add: ReplaceCR_def)
qed

lemma ReplaceCR_frame:
  "ReplaceCR (pasteBegin @ P @ pasteEnd) = pasteBegin @ ReplaceCR P @ pasteEnd"
  by (simp add: ReplaceCR_def pasteBegin_def pasteEnd_def ESC_def CR_def)

lemma Index_frame:
  assumes "\<not> sublist pasteEnd Q"
  shows "Index (pasteBegin @ Q @ pasteEnd) pasteEnd = 6 + int (length Q)"
proof -
  have "Index (Q @ pasteEnd) pasteEnd = int (length Q)"
    by (rule Index_no_occurrence [OF _ _ assms]) (simp_all add: pasteEnd_def ESC_def)
  then show ?thesis
    by (simp add: pasteBegin_def Let_def ESC_def pasteEnd_def)
qed

lemma parseBracketedPaste_frame:
  assumes "\<not> sublist pasteEnd P"
  shows "parseBracketedPaste t (pasteBegin @ P @ pasteEnd) evs =
     ((True, True), t\<lparr>t_escbuf := []\<rparr>, [],
      evs @ [EventPaste (ReplaceCR P) (t_escbuf t @ pasteBegin @ P @ pasteEnd)])"
proof -
  have ns: "\<not> sublist pasteEnd (ReplaceCR P)" using assms sublist_ReplaceCR by blast
  have l: "length pasteBegin = 6" "length pasteEnd = 6" by (simp_all add: pasteBegin_def pasteEnd_def)
  have n: "nat (6 + int (length (ReplaceCR P))) = 6 + length P" by (simp add: ReplaceCR_def)
  have lr: "length (ReplaceCR P) = length P" by (simp add: ReplaceCR_def)
  show ?thesis
    unfolding parseBracketedPaste_def Let_def ReplaceCR_frame Index_frame [OF ns] n
    by (simp add: l lr)
qed

lemma parseOSC52Paste_frame:
  "parseOSC52Paste t (pasteBegin @ P @ pasteEnd) evs = ((False, False), t, pasteBegin @ P @ pasteEnd, evs)"
  by (simp add: parseOSC52Paste_def pasteBegin_def pasteOSC52Begin_def Let_def)

lemma collectIter_frame:
  assumes "\<not> sublist pasteEnd P"
  shows "collectIter dr M expire t (pasteBegin @ P @ pasteEnd) evs =
     Some (True, t\<lparr>t_escbuf := []\<rparr>, [],
      evs @ [EventPaste (ReplaceCR P) (t_escbuf t @ pasteBegin @ P @ pasteEnd)])"
proof -
  have "(if t_paste t then parsePaste t (pasteBegin @ P @ pasteEnd) evs
         else Some (False, t, pasteBegin @ P @ pasteEnd, evs)) =
        Some (False, t, pasteBegin @ P @ pasteEnd, evs)"
    using parsePaste_ESC [of t "''[200~'' @ P @ pasteEnd" evs]
    by (simp add: pasteBegin_def)
  then show ?thesis
    by (simp add: collectIter_def parseOSC52Paste_frame parseBracketedPaste_frame [OF assms])
qed

text \<open>
  C2. For every payload \<open>P\<close> that does not contain the end marker, a scan of the
  buffer \<open>ESC [ 2 0 0 ~\<close>, \<open>P\<close>, \<open>ESC [ 2 0 1 ~\<close> returns, in any screen state and
  for either value of \<open>expire\<close>, exactly one event: the Paste event whose text is
  \<open>P\<close> with every CR replaced by LF. No key event is made from the payload, and the
  buffer is left empty.
\<close>

theorem bracketed_paste:
  assumes "\<not> sublist pasteEnd P"
  shows "collectEventsFromInput dr M t (pasteBegin @ P @ pasteEnd) expire =
           Some (t\<lparr>t_escbuf := []\<rparr>, [],
                 [EventPaste (ReplaceCR P) (t_escbuf t @ pasteBegin @ P @ pasteEnd)])"
proof -
  have ne: "pasteBegin @ P @ pasteEnd \<noteq> []" unfolding pasteBegin_def by simp
  show ?thesis
    unfolding collectEventsFromInput_def
    apply (subst collectLoop.simps)
    apply (simp only: ne if_False collectIter_frame [OF assms] option.simps prod.simps if_True
        append_Nil)
    apply (subst collectLoop.simps)
    apply simp
    done
qed

theorem bracketed_paste_witness:
  "\<not> sublist pasteEnd (''hello'' @ [CR, LF] @ ''world'') \<and>
   collectEventsFromInput exampleDecodeRune exampleMethods exampleScreen
     (ESC # ''[200~hello'' @ [CR, LF] @ ''world'' @ ESC # ''[201~'') False =
     Some (exampleScreen, [],
           [EventPaste (''hello'' @ [LF, LF] @ ''world'')
              (ESC # ''[200~hello'' @ [CR, LF] @ ''world'' @ ESC # ''[201~'')])"
proof -
  have ns: "\<not> sublist pasteEnd (''hello'' @ [CR, LF] @ ''world'')"
    by (auto dest!: set_mono_sublist simp: pasteEnd_def ESC_def CR_def LF_def)
  from bracketed_paste [OF ns, of exampleDecodeRune exampleMethods exampleScreen False] ns
  show ?thesis
    by (simp add: example_defs byte_defs ReplaceCR_def)
qed

subsection \<open>A lone escape\<close>

lemma functionKeyRange_silent:
  "keysSilent kc b \<Longrightarrow> \<exists>pf. functionKeyRange kc p t b evs = ((pf, False), t, b, evs)"
proof (induction kc arbitrary: p)
  case Nil
  then show ?case by simp
next
  case (Cons e kc)
  obtain esc k where e: "e = (esc, k)" by (cases e)
  from Cons.prems have s: "keysSilent kc b" and h: "esc = [ESC] \<or> \<not> prefix esc b"
    by (simp_all add: keysSilent_def e)
  from h show ?case
  proof
    assume "esc = [ESC]"
    with Cons.IH [OF s, of p] show ?thesis by (simp add: e)
  next
    assume n: "\<not> prefix esc b"
    with Cons.IH [OF s, of "if prefix b esc then True else p"] Cons.IH [OF s, of p]
    show ?thesis by (simp add: e)
  qed
qed

lemma parseFunctionKey_silent:
  "keysSilent (t_keycodes t) b \<Longrightarrow> \<exists>pf. parseFunctionKey t b evs = ((pf, False), t, b, evs)"
  unfolding parseFunctionKey_def by (rule functionKeyRange_silent)

lemma keysSilent_ESC: "keycodesNonEmpty kc \<Longrightarrow> keysSilent kc [ESC]"
  unfolding keysSilent_def keycodesNonEmpty_def list_all_iff
  by (auto simp: prefix_Cons)

text \<open>The invariant of the key table.\<close>

lemma keycodesNonEmpty_prepareKeyMod:
  "keycodesNonEmpty (t_keycodes t) \<Longrightarrow> keycodesNonEmpty (t_keycodes (prepareKeyMod t k m val))"
  by (auto simp: prepareKeyMod_def keycodesNonEmpty_def keycodesStore_def list_all_iff
      split: option.splits)

lemma keycodesNonEmpty_prepareKeyModReplace:
  "keycodesNonEmpty (t_keycodes t) \<Longrightarrow>
   keycodesNonEmpty (t_keycodes (prepareKeyModReplace t k r m val))"
  by (auto simp: prepareKeyModReplace_def keycodesNonEmpty_def keycodesStore_def list_all_iff
      Let_def)

lemma sub_ESC:
  "parseOSC52Paste t [ESC] evs = ((True, False), t, [ESC], evs)"
  "parseBracketedPaste t [ESC] evs = ((True, False), t, [ESC], evs)"
  "parseRune dr t (ESC # bs) evs = Some ((False, False), t, ESC # bs, evs)"
  "\<exists>px. parseXtermMouse M t [ESC] evs = ((px, False), t, [ESC], evs)"
  "\<exists>ps. parseSgrMouse M t [ESC] evs = ((ps, False), t, [ESC], evs)"
  by (auto simp: parseOSC52Paste_def parseBracketedPaste_def parseRune_def parseXtermMouse_def
      parseSgrMouse_def byte_defs ReplaceCR_def Let_def)


lemma collectIter_ESC_hold:
  assumes "keycodesNonEmpty (t_keycodes t)"
  shows "collectIter dr M False t [ESC] evs = Some (False, t, [ESC], evs)"
proof -
  obtain pf where f: "parseFunctionKey t [ESC] evs = ((pf, False), t, [ESC], evs)"
    using parseFunctionKey_silent [OF keysSilent_ESC [OF assms]] by blast
  obtain px where x: "parseXtermMouse M t [ESC] evs = ((px, False), t, [ESC], evs)"
    using sub_ESC(4) by blast
  obtain ps where s: "parseSgrMouse M t [ESC] evs = ((ps, False), t, [ESC], evs)"
    using sub_ESC(5) by blast
  show ?thesis
    by (simp add: collectIter_def keyParsers_def mouseParsers_def parsePaste_ESC sub_ESC(1,2,3)
        f x s countPartial_def Let_def)
qed

lemma catchAll_ESC:
  assumes "rawSilent (t_rawseq t) [ESC]"
  shows "catchAll t [ESC] evs =
           Some (t\<lparr>t_escbuf := [ESC], t_escaped := False\<rparr>, [],
                 evs @ [EventKey KeyEsc 0 ModNone [ESC]])"
  using assms by (simp add: catchAll_def rawSilent_def readInto_def)

lemma collectIter_ESC_expire:
  assumes "keycodesNonEmpty (t_keycodes t)" "rawSilent (t_rawseq t) [ESC]"
  shows "collectIter dr M True t [ESC] evs =
           Some (True, t\<lparr>t_escbuf := [ESC], t_escaped := False\<rparr>, [],
                 evs @ [EventKey KeyEsc 0 ModNone [ESC]])"
proof -
  obtain pf where f: "parseFunctionKey t [ESC] evs = ((pf, False), t, [ESC], evs)"
    using parseFunctionKey_silent [OF keysSilent_ESC [OF assms(1)]] by blast
  obtain px where x: "parseXtermMouse M t [ESC] evs = ((px, False), t, [ESC], evs)"
    using sub_ESC(4) by blast
  obtain ps where s: "parseSgrMouse M t [ESC] evs = ((ps, False), t, [ESC], evs)"
    using sub_ESC(5) by blast
  show ?thesis
    by (simp add: collectIter_def keyParsers_def mouseParsers_def parsePaste_ESC sub_ESC(1,2,3)
        f x s Let_def catchAll_ESC [OF assms(2)])
qed

text \<open>
  C1, as amended. When the input buffer holds exactly the byte \<open>ESC\<close>, a scan with
  \<open>expire = false\<close> returns no event and leaves the byte in the buffer; and if no
  registered raw sequence is a prefix of the buffer, a scan with \<open>expire = true\<close>
  returns exactly the event \<open>Key(Esc)\<close> with no modifier and the raw bytes \<open>ESC\<close>,
  and the buffer is empty afterwards. This holds with paste mode off and on; it needs
  the invariant that the key table holds no empty sequence.
\<close>

theorem lone_escape:
  assumes "keycodesNonEmpty (t_keycodes t)"
  shows "collectEventsFromInput dr M t [ESC] False = Some (t, [ESC], [])
       \<and> (rawSilent (t_rawseq t) [ESC] \<longrightarrow>
            collectEventsFromInput dr M t [ESC] True =
              Some (t\<lparr>t_escbuf := [ESC], t_escaped := False\<rparr>, [],
                    [EventKey KeyEsc 0 ModNone [ESC]]))"
  unfolding collectEventsFromInput_def
  apply (intro conjI impI)
   apply (subst collectLoop.simps)
   apply (simp add: collectIter_ESC_hold [OF assms])
  apply (subst collectLoop.simps)
  apply (simp add: collectIter_ESC_expire [OF assms])
  apply (subst collectLoop.simps)
  apply simp
  done

theorem lone_escape_witness:
  "keycodesNonEmpty (t_keycodes exampleScreen) \<and> rawSilent (t_rawseq exampleScreen) [ESC] \<and>
   collectEventsFromInput exampleDecodeRune exampleMethods exampleScreen [ESC] False =
     Some (exampleScreen, [ESC], []) \<and>
   collectEventsFromInput exampleDecodeRune exampleMethods exampleScreen [ESC] True =
     Some (exampleScreen\<lparr>t_escbuf := [ESC], t_escaped := False\<rparr>, [],
           [EventKey KeyEsc 0 ModNone [ESC]])"
proof -
  have k: "keycodesNonEmpty (t_keycodes exampleScreen)"
    by (simp add: example_defs keycodesNonEmpty_def ESC_def)
  have r: "rawSilent (t_rawseq exampleScreen) [ESC]"
    by (simp add: example_defs rawSilent_def)
  from lone_escape [OF k, of exampleDecodeRune exampleMethods] k r show ?thesis by simp
qed

text \<open>
  The claim as stated fails once \<open>RegisterRawSeq\<close> has registered the sequence \<open>ESC\<close>:
  with paste mode off, the scan with \<open>expire = true\<close> returns a Raw event, not
  \<open>Key(Esc)\<close>.
\<close>

theorem lone_escape_raw_counterexample:
  "\<not> t_paste (RegisterRawSeq exampleScreen [ESC]) \<and>
   collectEventsFromInput exampleDecodeRune exampleMethods
     (RegisterRawSeq exampleScreen [ESC]) [ESC] True =
     Some (RegisterRawSeq exampleScreen [ESC], [], [EventRaw [ESC]])"
  by (simp add: parser_defs collectLoop.simps example_defs byte_defs Let_def RegisterRawSeq_def)

subsection \<open>SGR press and release\<close>

lemma sgr_press_subparsers:
  "parseOSC52Paste t (ESC # ''[<0;10;5M'' @ ESC # ''[<0;10;5m'') evs =
     ((False, False), t, ESC # ''[<0;10;5M'' @ ESC # ''[<0;10;5m'', evs)"
  "parseBracketedPaste t (ESC # ''[<0;10;5M'' @ ESC # ''[<0;10;5m'') evs =
     ((False, False), t, ESC # ''[<0;10;5M'' @ ESC # ''[<0;10;5m'', evs)"
  "parseXtermMouse M t (ESC # ''[<0;10;5M'' @ ESC # ''[<0;10;5m'') evs =
     ((False, False), t, ESC # ''[<0;10;5M'' @ ESC # ''[<0;10;5m'', evs)"
  by (auto simp: parseOSC52Paste_def parseBracketedPaste_def parseXtermMouse_def
      byte_defs ReplaceCR_def Let_def)

lemma sgr_release_subparsers:
  "parseOSC52Paste t (ESC # ''[<0;10;5m'') evs = ((False, False), t, ESC # ''[<0;10;5m'', evs)"
  "parseBracketedPaste t (ESC # ''[<0;10;5m'') evs = ((False, False), t, ESC # ''[<0;10;5m'', evs)"
  "parseXtermMouse M t (ESC # ''[<0;10;5m'') evs = ((False, False), t, ESC # ''[<0;10;5m'', evs)"
  by (auto simp: parseOSC52Paste_def parseBracketedPaste_def parseXtermMouse_def
      byte_defs ReplaceCR_def Let_def)

lemma sgr_press:
  assumes "\<not> t_escaped t" "Size M (t_cells t) = (w, h)" "10 \<le> w" "5 \<le> h"
  shows "parseSgrMouse M t (ESC # ''[<0;10;5M'' @ rest) evs =
     ((True, True), t\<lparr>t_escbuf := [], t_wasbtn := True, t_buttondn := True\<rparr>, rest,
      evs @ [EventMouse 9 4 Button1 {} (t_escbuf t @ ESC # ''[<0;10;5M'')])"
  using assms
  by (simp add: parseSgrMouse_def buildMouseEvent_def clip_def mouseButton_def mouseMod_def
      readInto_def isDigit_def int64_def ModNone_def byte_defs Let_def)

lemma sgr_release:
  assumes "\<not> t_escaped t" "Size M (t_cells t) = (w, h)" "10 \<le> w" "5 \<le> h"
  shows "parseSgrMouse M t (ESC # ''[<0;10;5m'' @ rest) evs =
     ((True, True), t\<lparr>t_escbuf := [], t_wasbtn := False, t_buttondn := False\<rparr>, rest,
      evs @ [EventMouse 9 4 ButtonNone {} (t_escbuf t @ ESC # ''[<0;10;5m'')])"
  using assms
  by (simp add: parseSgrMouse_def buildMouseEvent_def clip_def mouseButton_def mouseMod_def
      readInto_def isDigit_def int64_def ModNone_def byte_defs Let_def)

lemma collectIter_sgr_press:
  assumes "Mouse (t_ti t) \<noteq> []" "\<not> t_escaped t" "Size M (t_cells t) = (w, h)" "10 \<le> w" "5 \<le> h"
    and "keysSilent (t_keycodes t) (ESC # ''[<0;10;5M'' @ ESC # ''[<0;10;5m'')"
  shows "collectIter dr M expire t (ESC # ''[<0;10;5M'' @ ESC # ''[<0;10;5m'') evs =
     Some (True, t\<lparr>t_escbuf := [], t_wasbtn := True, t_buttondn := True\<rparr>, ESC # ''[<0;10;5m'',
           evs @ [EventMouse 9 4 Button1 {} (t_escbuf t @ ESC # ''[<0;10;5M'')])"
proof -
  obtain pf where f: "parseFunctionKey t (ESC # ''[<0;10;5M'' @ ESC # ''[<0;10;5m'') evs =
      ((pf, False), t, ESC # ''[<0;10;5M'' @ ESC # ''[<0;10;5m'', evs)"
    using parseFunctionKey_silent [OF assms(6)] by blast
  have r: "parseRune dr t (ESC # ''[<0;10;5M'' @ ESC # ''[<0;10;5m'') evs =
      Some ((False, False), t, ESC # ''[<0;10;5M'' @ ESC # ''[<0;10;5m'', evs)"
    using sub_ESC(3) [of dr t "''[<0;10;5M'' @ ESC # ''[<0;10;5m''" evs] by simp
  have p: "parsePaste t (ESC # ''[<0;10;5M'' @ ESC # ''[<0;10;5m'') evs =
      Some (False, t, ESC # ''[<0;10;5M'' @ ESC # ''[<0;10;5m'', evs)"
    using parsePaste_ESC [of t "''[<0;10;5M'' @ ESC # ''[<0;10;5m''" evs] by simp
  show ?thesis
    unfolding collectIter_def keyParsers_def mouseParsers_def
    by (simp add: p r f sgr_press_subparsers
        sgr_press [OF assms(2,3,4,5), of "ESC # ''[<0;10;5m''" evs] assms(1)
        del: append.simps)
qed


lemma collectIter_sgr_release:
  assumes "Mouse (t_ti t) \<noteq> []" "\<not> t_escaped t" "Size M (t_cells t) = (w, h)" "10 \<le> w" "5 \<le> h"
    and "keysSilent (t_keycodes t) (ESC # ''[<0;10;5m'')"
  shows "collectIter dr M expire t (ESC # ''[<0;10;5m'') evs =
     Some (True, t\<lparr>t_escbuf := [], t_wasbtn := False, t_buttondn := False\<rparr>, [],
           evs @ [EventMouse 9 4 ButtonNone {} (t_escbuf t @ ESC # ''[<0;10;5m'')])"
proof -
  obtain pf where f: "parseFunctionKey t (ESC # ''[<0;10;5m'') evs =
      ((pf, False), t, ESC # ''[<0;10;5m'', evs)"
    using parseFunctionKey_silent [OF assms(6)] by blast
  show ?thesis
    unfolding collectIter_def keyParsers_def mouseParsers_def
    by (simp add: parsePaste_ESC sub_ESC(3) f sgr_release_subparsers
        sgr_release [OF assms(2,3,4,5), of "[]" evs, simplified] assms(1))
qed

text \<open>
  C3, as amended. On a terminal whose capability record has a mouse capability, with
  the escaped flag clear, a cell buffer of at least 10 columns and 5 rows, and a key
  table in which no sequence is a prefix of the input, a scan of
  \<open>ESC [ < 0 ; 1 0 ; 5 M ESC [ < 0 ; 1 0 ; 5 m\<close> returns exactly two mouse events, in
  this order: Button1 at (9, 4) without modifiers, then no button at (9, 4) without
  modifiers. Both decimal coordinates are one less than sent, and the \<open>m\<close> terminator
  clears the buttons.
\<close>

theorem sgr_press_release:
  assumes "Mouse (t_ti t) \<noteq> []" "\<not> t_escaped t" "Size M (t_cells t) = (w, h)" "10 \<le> w" "5 \<le> h"
    and "keysSilent (t_keycodes t) (ESC # ''[<0;10;5M'' @ ESC # ''[<0;10;5m'')"
    and "keysSilent (t_keycodes t) (ESC # ''[<0;10;5m'')"
  shows "collectEventsFromInput dr M t (ESC # ''[<0;10;5M'' @ ESC # ''[<0;10;5m'') expire =
           Some (t\<lparr>t_escbuf := [], t_wasbtn := False, t_buttondn := False\<rparr>, [],
                 [EventMouse 9 4 Button1 {} (t_escbuf t @ ESC # ''[<0;10;5M''),
                  EventMouse 9 4 ButtonNone {} (ESC # ''[<0;10;5m'')])"
proof -
  let ?t1 = "t\<lparr>t_escbuf := [], t_wasbtn := True, t_buttondn := True\<rparr>"
  have it1: "collectIter dr M expire t (ESC # ''[<0;10;5M'' @ ESC # ''[<0;10;5m'') [] =
     Some (True, ?t1, ESC # ''[<0;10;5m'',
           [EventMouse 9 4 Button1 {} (t_escbuf t @ ESC # ''[<0;10;5M'')])"
    using collectIter_sgr_press [OF assms(1,2,3,4,5,6), of dr expire "[]"] by simp
  have it2: "collectIter dr M expire ?t1 (ESC # ''[<0;10;5m'')
        [EventMouse 9 4 Button1 {} (t_escbuf t @ ESC # ''[<0;10;5M'')] =
     Some (True, t\<lparr>t_escbuf := [], t_wasbtn := False, t_buttondn := False\<rparr>, [],
           [EventMouse 9 4 Button1 {} (t_escbuf t @ ESC # ''[<0;10;5M''),
            EventMouse 9 4 ButtonNone {} (ESC # ''[<0;10;5m'')])"
    using collectIter_sgr_release [of ?t1 M w h dr expire
        "[EventMouse 9 4 Button1 {} (t_escbuf t @ ESC # ''[<0;10;5M'')]"] assms
    by simp
  show ?thesis
    unfolding collectEventsFromInput_def
    apply (subst collectLoop.simps)
    apply (simp only: it1 option.simps prod.simps if_True)
    apply (simp del: append.simps)
    apply (subst collectLoop.simps)
    apply (simp only: it2 option.simps prod.simps if_True)
    apply simp
    apply (subst collectLoop.simps)
    apply simp
    done
qed

theorem sgr_press_release_witness:
  "Mouse (t_ti exampleScreen) \<noteq> [] \<and> \<not> t_escaped exampleScreen \<and>
   Size exampleMethods (t_cells exampleScreen) = (80, 24) \<and>
   keysSilent (t_keycodes exampleScreen) (ESC # ''[<0;10;5M'' @ ESC # ''[<0;10;5m'') \<and>
   keysSilent (t_keycodes exampleScreen) (ESC # ''[<0;10;5m'') \<and>
   collectEventsFromInput exampleDecodeRune exampleMethods exampleScreen
       (ESC # ''[<0;10;5M'' @ ESC # ''[<0;10;5m'') False =
     Some (exampleScreen, [],
           [EventMouse 9 4 Button1 {} (ESC # ''[<0;10;5M''),
            EventMouse 9 4 ButtonNone {} (ESC # ''[<0;10;5m'')])"
proof -
  have a: "Mouse (t_ti exampleScreen) \<noteq> []" "\<not> t_escaped exampleScreen"
    "Size exampleMethods (t_cells exampleScreen) = (80, 24)" "(10::int) \<le> 80" "(5::int) \<le> 24"
    "keysSilent (t_keycodes exampleScreen) (ESC # ''[<0;10;5M'' @ ESC # ''[<0;10;5m'')"
    "keysSilent (t_keycodes exampleScreen) (ESC # ''[<0;10;5m'')"
    by (simp_all add: example_defs keysSilent_def ESC_def)
  from sgr_press_release [OF a, of exampleDecodeRune False] a show ?thesis
    by (simp add: example_defs)
qed

text \<open>
  The claim as stated fails on a freshly initialised 80 by 24 screen of a terminal
  without a mouse capability: the mouse parsers are not run, and the same bytes come
  out as eighteen key events.
\<close>

theorem sgr_without_mouse_counterexample:
  "collectEventsFromInput exampleDecodeRune exampleMethods
       (exampleScreen\<lparr>t_ti := exampleTerminfo\<lparr>Mouse := []\<rparr>\<rparr>)
       (ESC # ''[<0;10;5M'' @ ESC # ''[<0;10;5m'') False =
     Some (exampleScreen\<lparr>t_ti := exampleTerminfo\<lparr>Mouse := []\<rparr>\<rparr>, [],
           EventKey KeyRune 91 {ModAlt} (ESC # ''['') #
           map (\<lambda>c. EventKey KeyRune (int (of_char c)) {} [c]) ''<0;10;5M'' @
           EventKey KeyRune 91 {ModAlt} (ESC # ''['') #
           map (\<lambda>c. EventKey KeyRune (int (of_char c)) {} [c]) ''<0;10;5m'')"
  by (simp add: parser_defs collectLoop.simps example_defs byte_defs Let_def)

subsection \<open>The escaped flag and Alt\<close>

lemma parseRune_ascii:
  assumes "32 \<le> (of_char c :: nat)" "(of_char c :: nat) \<le> 0x7F"
  shows "parseRune dr t (c # bs) evs =
     Some ((True, True), t\<lparr>t_escaped := False, t_escbuf := []\<rparr>, bs,
           evs @ [EventKey KeyRune (int (of_char c)) (if t_escaped t then {ModAlt} else ModNone)
                    (t_escbuf t @ [c])])"
  using assms by (simp add: parseRune_def readInto_def Let_def)

lemma functionKeyRange_escaped:
  assumes "functionKeyRange kc p t b evs = ((True, True), t', b', evs')"
  shows "\<not> t_escaped t' \<and>
         (\<exists>k r m raw. evs' = evs @ [EventKey k r m raw] \<and> (t_escaped t \<longrightarrow> ModAlt \<in> m))"
  using assms
  by (induction kc p t b evs rule: functionKeyRange.induct)
     (auto simp: Let_def split: if_splits prod.splits)

lemma runeDecode_escaped:
  assumes "runeDecode dr ls t b evs = (pc, t', b', evs')" "evs' \<noteq> evs"
  shows "\<not> t_escaped t' \<and>
         (\<exists>r m raw. evs' = evs @ [EventKey KeyRune r m raw] \<and> (t_escaped t \<longrightarrow> ModAlt \<in> m))"
  using assms
  by (induction dr ls t b evs rule: runeDecode.induct)
     (auto simp: Let_def split: if_splits prod.splits)

lemma parseRune_escaped:
  assumes "parseRune dr t b evs = Some (pc, t', b', evs')" "evs' \<noteq> evs"
  shows "\<not> t_escaped t' \<and>
         (\<exists>r m raw. evs' = evs @ [EventKey KeyRune r m raw] \<and> (t_escaped t \<longrightarrow> ModAlt \<in> m))"
  using assms
  by (auto simp: parseRune_def Let_def split: list.splits if_splits prod.splits
      dest!: runeDecode_escaped)

lemma paste_keeps_escaped:
  "parsePaste t b evs = Some (pasted, t', b', evs') \<Longrightarrow> t_escaped t' = t_escaped t"
  "parseOSC52Paste t b evs = (pc, t', b', evs') \<Longrightarrow> t_escaped t' = t_escaped t"
  "parseBracketedPaste t b evs = (pc, t', b', evs') \<Longrightarrow> t_escaped t' = t_escaped t"
  by (auto simp: parsePaste_def parseOSC52Paste_def parseBracketedPaste_def Let_def
      split: list.splits if_splits prod.splits option.splits)

lemma buildMouseEvent_escaped:
  "buildMouseEvent M t x y btn = (t', ev) \<Longrightarrow> t_escaped t' = t_escaped t"
  by (auto simp: buildMouseEvent_def Let_def split: prod.splits)

lemma mouse_keeps_escaped:
  "parseXtermMouse M t b evs = (pc, t', b', evs') \<Longrightarrow> t_escaped t' = t_escaped t"
  "parseSgrMouse M t b evs = (pc, t', b', evs') \<Longrightarrow> t_escaped t' = t_escaped t"
  by (auto simp: parseXtermMouse_def parseSgrMouse_def Let_def
      split: scanned.splits if_splits prod.splits dest!: buildMouseEvent_escaped)

lemma alt_a_subparsers:
  "parseOSC52Paste t (ESC # ''a'') evs = ((False, False), t, ESC # ''a'', evs)"
  "parseBracketedPaste t (ESC # ''a'') evs = ((False, False), t, ESC # ''a'', evs)"
  "parseXtermMouse M t (ESC # ''a'') evs = ((False, False), t, ESC # ''a'', evs)"
  "\<exists>ps. parseSgrMouse M t (ESC # ''a'') evs = ((ps, False), t, ESC # ''a'', evs)"
  "parseOSC52Paste t ''a'' evs = ((False, False), t, ''a'', evs)"
  "parseBracketedPaste t ''a'' evs = ((False, False), t, ''a'', evs)"
  "parsePaste t ''a'' evs = Some (False, t, ''a'', evs)"
  by (auto simp: parseOSC52Paste_def parseBracketedPaste_def parseXtermMouse_def
      parseSgrMouse_def parsePaste_def byte_defs ReplaceCR_def Let_def)

lemma catchAll_alt_a:
  assumes "rawSilent (t_rawseq t) (ESC # ''a'')"
  shows "catchAll t (ESC # ''a'') evs =
           Some (t\<lparr>t_escaped := True, t_escbuf := t_escbuf t @ [ESC]\<rparr>, ''a'', evs)"
  using assms by (simp add: catchAll_def rawSilent_def readInto_def)

lemma collectIter_alt_a_first:
  assumes "keysSilent (t_keycodes t) (ESC # ''a'')" "rawSilent (t_rawseq t) (ESC # ''a'')"
  shows "collectIter dr M True t (ESC # ''a'') evs =
           Some (True, t\<lparr>t_escaped := True, t_escbuf := t_escbuf t @ [ESC]\<rparr>, ''a'', evs)"
    and "collectIter dr M False t (ESC # ''a'') evs =
           Some (True, t\<lparr>t_escaped := True, t_escbuf := t_escbuf t @ [ESC]\<rparr>, ''a'', evs) \<or>
         collectIter dr M False t (ESC # ''a'') evs = Some (False, t, ESC # ''a'', evs)"
proof -
  obtain pf where f: "parseFunctionKey t (ESC # ''a'') evs = ((pf, False), t, ESC # ''a'', evs)"
    using parseFunctionKey_silent [OF assms(1)] by blast
  obtain ps where s: "parseSgrMouse M t (ESC # ''a'') evs = ((ps, False), t, ESC # ''a'', evs)"
    using alt_a_subparsers(4) by blast
  show "collectIter dr M True t (ESC # ''a'') evs =
           Some (True, t\<lparr>t_escaped := True, t_escbuf := t_escbuf t @ [ESC]\<rparr>, ''a'', evs)"
    unfolding collectIter_def keyParsers_def mouseParsers_def
    by (auto simp: parsePaste_ESC sub_ESC(3) alt_a_subparsers(1,2,3) f s
        catchAll_alt_a [OF assms(2)] Let_def countPartial_def)
  show "collectIter dr M False t (ESC # ''a'') evs =
           Some (True, t\<lparr>t_escaped := True, t_escbuf := t_escbuf t @ [ESC]\<rparr>, ''a'', evs) \<or>
         collectIter dr M False t (ESC # ''a'') evs = Some (False, t, ESC # ''a'', evs)"
    unfolding collectIter_def keyParsers_def mouseParsers_def
    by (auto simp: parsePaste_ESC sub_ESC(3) alt_a_subparsers(1,2,3) f s
        catchAll_alt_a [OF assms(2)] Let_def countPartial_def)
qed

lemma collectIter_alt_a_second:
  assumes "t_escaped t"
  shows "collectIter dr M expire t ''a'' evs =
           Some (True, t\<lparr>t_escaped := False, t_escbuf := []\<rparr>, [],
                 evs @ [EventKey KeyRune 97 {ModAlt} (t_escbuf t @ ''a'')])"
  unfolding collectIter_def keyParsers_def
  using assms
  by (simp add: alt_a_subparsers(5,6,7) parseRune_ascii)

lemma collectLoop_alt_a_go:
  assumes "collectIter dr M expire t (ESC # ''a'') [] =
           Some (True, t\<lparr>t_escaped := True, t_escbuf := t_escbuf t @ [ESC]\<rparr>, ''a'', [])"
    and "t_escbuf t = []"
  shows "collectLoop dr M expire t (ESC # ''a'') [] =
           Some (t\<lparr>t_escaped := False, t_escbuf := []\<rparr>, [],
                 [EventKey KeyRune 97 {ModAlt} (ESC # ''a'')])"
  apply (subst collectLoop.simps)
  apply (simp only: assms(1) option.simps prod.simps if_True list.simps if_False)
  apply (subst collectLoop.simps)
  apply (simp add: collectIter_alt_a_second assms(2))
  apply (subst collectLoop.simps)
  apply simp
  done

lemma collectLoop_alt_a_hold:
  assumes "collectIter dr M False t (ESC # ''a'') [] = Some (False, t, ESC # ''a'', [])"
  shows "collectLoop dr M False t (ESC # ''a'') [] = Some (t, ESC # ''a'', [])"
  apply (subst collectLoop.simps)
  apply (simp only: assms(1) option.simps prod.simps if_True list.simps if_False)
  done

lemma chunkThenQuiet_alt_a:
  assumes "keysSilent (t_keycodes t) (ESC # ''a'')" "rawSilent (t_rawseq t) (ESC # ''a'')"
    and "t_escbuf t = []"
  shows "chunkThenQuiet dr M t [] (ESC # ''a'') =
           Some (t\<lparr>t_escaped := False, t_escbuf := []\<rparr>, [],
                 [EventKey KeyRune 97 {ModAlt} (ESC # ''a'')])"
proof -
  note go = collectLoop_alt_a_go [OF _ assms(3)]
  from collectIter_alt_a_first(2) [OF assms(1,2), of dr M "[]"]
  show ?thesis
  proof
    assume "collectIter dr M False t (ESC # ''a'') [] =
           Some (True, t\<lparr>t_escaped := True, t_escbuf := t_escbuf t @ [ESC]\<rparr>, ''a'', [])"
    from go [OF this] show ?thesis
      by (simp add: chunkThenQuiet_def collectEventsFromInput_def)
  next
    assume "collectIter dr M False t (ESC # ''a'') [] = Some (False, t, ESC # ''a'', [])"
    from collectLoop_alt_a_hold [OF this]
      go [OF collectIter_alt_a_first(1) [OF assms(1,2), of dr M "[]"]]
    show ?thesis
      by (simp add: chunkThenQuiet_def collectEventsFromInput_def)
  qed
qed


text \<open>
  C5, as amended. Once the catch-all has read a bare \<open>ESC\<close> and set the escaped flag,
  the next event of the rune parser or of the function-key parser carries Alt, and every
  key event emission clears the flag: a rune event, a function-key event, and the lone
  \<open>Key(Esc)\<close> (which itself carries no modifier). In particular, with an empty
  \<open>escbuf\<close>, no registered raw sequence that is a prefix of the input and no key
  sequence that is a prefix of it, the chunk \<open>ESC a\<close> yields exactly one event, the
  rune \<open>a\<close> with Alt and the raw bytes \<open>ESC a\<close>: at once, or after the quiet time when
  a sub-parser holds the bytes as a partial match.
\<close>

theorem escaped_gives_alt:
  assumes "keysSilent (t_keycodes t) (ESC # ''a'')" "rawSilent (t_rawseq t) (ESC # ''a'')"
    and "t_escbuf t = []"
  shows "chunkThenQuiet dr M t [] (ESC # ''a'') =
           Some (t\<lparr>t_escaped := False, t_escbuf := []\<rparr>, [],
                 [EventKey KeyRune 97 {ModAlt} (ESC # ''a'')])
       \<and> (parseRune dr u b evs = Some (pc, u1, b1, evs1) \<and> evs1 \<noteq> evs \<longrightarrow>
            \<not> t_escaped u1 \<and>
            (\<exists>r m raw. evs1 = evs @ [EventKey KeyRune r m raw] \<and> (t_escaped u \<longrightarrow> ModAlt \<in> m)))
       \<and> (parseFunctionKey u b evs = ((True, True), u2, b2, evs2) \<longrightarrow>
            \<not> t_escaped u2 \<and>
            (\<exists>k r m raw. evs2 = evs @ [EventKey k r m raw] \<and> (t_escaped u \<longrightarrow> ModAlt \<in> m)))
       \<and> (rawSilent (t_rawseq u) [ESC] \<longrightarrow>
            catchAll u [ESC] evs =
              Some (u\<lparr>t_escbuf := [ESC], t_escaped := False\<rparr>, [],
                    evs @ [EventKey KeyEsc 0 ModNone [ESC]]))"
proof (intro conjI impI)
  show "chunkThenQuiet dr M t [] (ESC # ''a'') =
           Some (t\<lparr>t_escaped := False, t_escbuf := []\<rparr>, [],
                 [EventKey KeyRune 97 {ModAlt} (ESC # ''a'')])"
    by (rule chunkThenQuiet_alt_a [OF assms])
next
  assume a: "parseRune dr u b evs = Some (pc, u1, b1, evs1) \<and> evs1 \<noteq> evs"
  from parseRune_escaped [of dr u b evs pc u1 b1 evs1] a
  show "\<not> t_escaped u1"
    and "\<exists>r m raw. evs1 = evs @ [EventKey KeyRune r m raw] \<and> (t_escaped u \<longrightarrow> ModAlt \<in> m)"
    by blast+
next
  assume a: "parseFunctionKey u b evs = ((True, True), u2, b2, evs2)"
  from functionKeyRange_escaped [OF a [unfolded parseFunctionKey_def]]
  show "\<not> t_escaped u2"
    and "\<exists>k r m raw. evs2 = evs @ [EventKey k r m raw] \<and> (t_escaped u \<longrightarrow> ModAlt \<in> m)"
    by blast+
next
  assume "rawSilent (t_rawseq u) [ESC]"
  then show "catchAll u [ESC] evs =
              Some (u\<lparr>t_escbuf := [ESC], t_escaped := False\<rparr>, [],
                    evs @ [EventKey KeyEsc 0 ModNone [ESC]])"
    by (rule catchAll_ESC)
qed

theorem escaped_gives_alt_witness:
  "keysSilent (t_keycodes exampleScreen) (ESC # ''a'') \<and>
   rawSilent (t_rawseq exampleScreen) (ESC # ''a'') \<and> t_escbuf exampleScreen = [] \<and>
   chunkThenQuiet exampleDecodeRune exampleMethods exampleScreen [] (ESC # ''a'') =
     Some (exampleScreen, [], [EventKey KeyRune 97 {ModAlt} (ESC # ''a'')]) \<and>
   parseRune exampleDecodeRune (exampleScreen\<lparr>t_escaped := True\<rparr>) ''a'' [] =
     Some ((True, True), exampleScreen, [], [EventKey KeyRune 97 {ModAlt} ''a'']) \<and>
   parseFunctionKey (exampleScreen\<lparr>t_escaped := True\<rparr>) (ESC # ''[A'') [] =
     ((True, True), exampleScreen, [], [EventKey 257 0 {ModAlt} (ESC # ''[A'')]) \<and>
   rawSilent (t_rawseq (exampleScreen\<lparr>t_escaped := True\<rparr>)) [ESC] \<and>
   catchAll (exampleScreen\<lparr>t_escaped := True\<rparr>) [ESC] [] =
     Some (exampleScreen\<lparr>t_escbuf := [ESC]\<rparr>, [], [EventKey KeyEsc 0 ModNone [ESC]])"
proof -
  have a: "keysSilent (t_keycodes exampleScreen) (ESC # ''a'')"
    "rawSilent (t_rawseq exampleScreen) (ESC # ''a'')" "t_escbuf exampleScreen = []"
    by (simp_all add: example_defs keysSilent_def rawSilent_def ESC_def)
  have r: "parseRune exampleDecodeRune (exampleScreen\<lparr>t_escaped := True\<rparr>) ''a'' [] =
     Some ((True, True), exampleScreen, [], [EventKey KeyRune 97 {ModAlt} ''a''])"
    by (simp add: parser_defs example_defs byte_defs Let_def)
  have f: "parseFunctionKey (exampleScreen\<lparr>t_escaped := True\<rparr>) (ESC # ''[A'') [] =
     ((True, True), exampleScreen, [], [EventKey 257 0 {ModAlt} (ESC # ''[A'')])"
    by (simp add: parser_defs example_defs byte_defs Let_def)
  have s: "rawSilent (t_rawseq (exampleScreen\<lparr>t_escaped := True\<rparr>)) [ESC]"
    by (simp add: example_defs rawSilent_def)
  from escaped_gives_alt [OF a, where dr = exampleDecodeRune and M = exampleMethods
      and u = "exampleScreen\<lparr>t_escaped := True\<rparr>" and b = "''a''" and evs = "[]"
      and pc = "(True, True)" and ?u1.0 = exampleScreen and ?b1.0 = "[]"
      and ?evs1.0 = "[EventKey KeyRune 97 {ModAlt} ''a'']"]
    escaped_gives_alt [OF a, where dr = exampleDecodeRune and M = exampleMethods
      and u = "exampleScreen\<lparr>t_escaped := True\<rparr>" and b = "ESC # ''[A''" and evs = "[]"
      and ?u2.0 = exampleScreen and ?b2.0 = "[]"
      and ?evs2.0 = "[EventKey 257 0 {ModAlt} (ESC # ''[A'')]"]
    a r f s
  show ?thesis
    by (simp add: example_defs)
qed

text \<open>
  The claim as stated (the flag is cleared on the emission of an event of any kind)
  fails for a Paste event: with paste mode on, after the quiet time the bytes
  \<open>ESC a b\<close> give one Paste event and leave the escaped flag set.
\<close>

theorem escaped_kept_by_paste_counterexample:
  "collectEventsFromInput exampleDecodeRune exampleMethods (SetPaste exampleScreen True)
       (ESC # ''ab'') True =
     Some ((SetPaste exampleScreen True)\<lparr>t_escaped := True\<rparr>, [],
           [EventPaste ''ab'' (ESC # ''ab'')])
   \<and> t_escaped ((SetPaste exampleScreen True)\<lparr>t_escaped := True\<rparr>)"
  by (simp add: parser_defs collectLoop.simps example_defs byte_defs Let_def SetPaste_def)

subsection \<open>Clipboard registers\<close>

text \<open>
  C8, as amended. \<open>GetClipboard\<close> and \<open>SetClipboard\<close> return a register error
  exactly when the register argument is empty or its first byte is neither \<open>c\<close> nor
  \<open>p\<close>, and then write nothing; only the first byte is read. For an accepted register
  with first byte \<open>r\<close>, \<open>GetClipboard\<close> writes the OSC 52 query for \<open>r\<close>, and
  \<open>SetClipboard\<close> writes the clear sequence and then the set sequence with the base64
  of the whole text, and returns the truncation notice exactly when the text has at
  least 74994 bytes.
\<close>

theorem clipboard_registers:
  "(snd (GetClipboard t register) = None) = registerAccepted register
   \<and> (snd (SetClipboard t tx register) = Some NoRegisterProvided \<or>
       snd (SetClipboard t tx register) = Some InvalidRegister) = (\<not> registerAccepted register)
   \<and> (\<not> registerAccepted register \<longrightarrow>
        fst (GetClipboard t register) = t \<and> fst (SetClipboard t tx register) = t)
   \<and> (register = r # rs \<and> (r = CHR ''c'' \<or> r = CHR ''p'') \<longrightarrow>
        fst (GetClipboard t register) = TPuts t (pasteGet r) \<and>
        fst (SetClipboard t tx register) =
          TPuts (TPuts t (pasteClear r)) (pasteSet r (EncodeToString tx)) \<and>
        (snd (SetClipboard t tx register) = Some TextTruncated) = (length tx \<ge> 74994) \<and>
        (snd (SetClipboard t tx register) = None) = (length tx < 74994))"
  by (cases register)
     (auto simp: GetClipboard_def SetClipboard_def registerAccepted_def Let_def)

theorem clipboard_registers_witness:
  "\<not> registerAccepted ''x'' \<and>
   GetClipboard exampleScreen ''x'' = (exampleScreen, Some InvalidRegister) \<and>
   SetClipboard exampleScreen ''hello'' ''x'' = (exampleScreen, Some InvalidRegister) \<and>
   ''p'' = CHR ''p'' # [] \<and>
   GetClipboard exampleScreen ''p'' =
     (exampleScreen\<lparr>t_out := ESC # '']52;p;?'' @ [ESC, CHR 0x5C]\<rparr>, None) \<and>
   SetClipboard exampleScreen ''hello'' ''p'' =
     (exampleScreen\<lparr>t_out := ESC # '']52;p;!'' @ [ESC, CHR 0x5C] @
                                  ESC # '']52;p;aGVsbG8='' @ [ESC, CHR 0x5C]\<rparr>, None)"
proof -
  have n: "\<not> registerAccepted ''x''" by (simp add: registerAccepted_def)
  have p: "''p'' = CHR ''p'' # [] \<and> (CHR ''p'' = CHR ''c'' \<or> CHR ''p'' = CHR ''p'')" by simp
  from clipboard_registers [of exampleScreen "''x''" "''hello''" "CHR ''p''" "[]"]
    clipboard_registers [of exampleScreen "''p''" "''hello''" "CHR ''p''" "[]"] n p
  show ?thesis
    by (simp add: GetClipboard_def SetClipboard_def TPuts_def pasteGet_def pasteClear_def
        pasteSet_def example_defs enc6_def encodeStd_def Let_def)
qed

text \<open>
  The claim as stated (an error for every register other than \<open>c\<close> and \<open>p\<close>) fails
  for the register \<open>cx\<close>: it is not one of the two valid registers, yet both
  operations accept it, return no error and write the sequences for \<open>c\<close>.
\<close>

theorem clipboard_first_byte_counterexample:
  "\<not> validRegister ''cx'' \<and>
   GetClipboard exampleScreen ''cx'' =
     (exampleScreen\<lparr>t_out := ESC # '']52;c;?'' @ [ESC, CHR 0x5C]\<rparr>, None) \<and>
   SetClipboard exampleScreen ''hello'' ''cx'' =
     (exampleScreen\<lparr>t_out := ESC # '']52;c;!'' @ [ESC, CHR 0x5C] @
                                  ESC # '']52;c;aGVsbG8='' @ [ESC, CHR 0x5C]\<rparr>, None)"
  by (simp add: validRegister_def GetClipboard_def SetClipboard_def TPuts_def pasteGet_def
      pasteClear_def pasteSet_def example_defs enc6_def encodeStd_def Let_def)

subsection \<open>After Fini\<close>

lemma TPuts_fields:
  "t_fini (TPuts t s) = t_fini t" "t_cursorx (TPuts t s) = t_cursorx t"
  "t_cursory (TPuts t s) = t_cursory t" "t_paste (TPuts t s) = t_paste t"
  "t_fallback (TPuts t s) = t_fallback t" "t_ti (TPuts t s) = t_ti t"
  "t_w (TPuts t s) = t_w t" "t_h (TPuts t s) = t_h t" "t_cells (TPuts t s) = t_cells t"
  "t_cx (TPuts t s) = t_cx t" "t_cy (TPuts t s) = t_cy t"
  "t_style (TPuts t s) = t_style t" "t_curstyle (TPuts t s) = t_curstyle t"
  "t_buffering (TPuts t s) = t_buffering t" "t_encoder (TPuts t s) = t_encoder t"
  "t_acs (TPuts t s) = t_acs t" "t_truecolor (TPuts t s) = t_truecolor t"
  by (simp_all add: TPuts_def)

lemma finish_fields:
  "t_fini (finish M t)" "t_cursorx (finish M t) = t_cursorx t"
  "t_paste (finish M t) = t_paste t" "t_fallback (finish M t) = t_fallback t"
  by (simp_all add: finish_def Let_def TPuts_fields)

lemma Fini_example:
  "t_fini (Fini exampleMethods exampleScreen)"
  "t_cursorx (Fini exampleMethods exampleScreen) = -1"
  "\<not> t_paste (Fini exampleMethods exampleScreen)"
  "t_fallback (Fini exampleMethods exampleScreen) = Map.empty"
  by (simp_all add: Fini_def finish_fields) (simp_all add: exampleScreen_def)

text \<open>
  C7, as amended. Once \<open>fini\<close> is set, the guarded operations \<open>SetStyle\<close>, \<open>Fill\<close>,
  \<open>Clear\<close>, \<open>SetContent\<close> and \<open>Show\<close> leave every field of the screen as it is,
  \<open>Fini\<close> does nothing more, and \<open>Sync\<close> writes nothing and changes nothing but the
  cached cursor position, which it sets to (-1, -1). \<open>ShowCursor\<close>, \<open>HideCursor\<close>,
  \<open>SetPaste\<close> and \<open>RegisterRuneFallback\<close> do not look at \<open>fini\<close>: they store their
  arguments as before.
\<close>

theorem fini_guards:
  assumes "t_fini t"
  shows "SetStyle t st = t \<and> Fill M t r st = t \<and> Clear_screen M t = t \<and>
         SetContent M t x y mainc combc st = t \<and> Show M X t = Some t \<and>
         Sync M X t = Some (t\<lparr>t_cx := -1, t_cy := -1\<rparr>) \<and> Fini M t = t \<and>
         ShowCursor_at t x y = t\<lparr>t_cursorx := x, t_cursory := y\<rparr> \<and>
         HideCursor_op t = t\<lparr>t_cursorx := -1, t_cursory := -1\<rparr> \<and>
         SetPaste t p = t\<lparr>t_paste := p\<rparr> \<and>
         RegisterRuneFallback t orig fb = t\<lparr>t_fallback := (t_fallback t)(orig \<mapsto> fb)\<rparr>"
  using assms
  by (simp add: SetStyle_def Fill_def Clear_screen_def SetContent_def Show_def Sync_def Fini_def
      ShowCursor_at_def HideCursor_op_def SetPaste_def RegisterRuneFallback_def Let_def)

theorem fini_guards_witness:
  "t_fini (Fini exampleMethods exampleScreen) \<and>
   SetStyle (Fini exampleMethods exampleScreen) styleInvalid = Fini exampleMethods exampleScreen \<and>
   Show exampleMethods exampleExternals (Fini exampleMethods exampleScreen) =
     Some (Fini exampleMethods exampleScreen) \<and>
   ShowCursor_at (Fini exampleMethods exampleScreen) 3 4 =
     (Fini exampleMethods exampleScreen)\<lparr>t_cursorx := 3, t_cursory := 4\<rparr>"
proof -
  have f: "t_fini (Fini exampleMethods exampleScreen)"
    by (rule Fini_example(1))
  have g: "SetStyle (Fini exampleMethods exampleScreen) styleInvalid =
             Fini exampleMethods exampleScreen"
    "Show exampleMethods exampleExternals (Fini exampleMethods exampleScreen) =
       Some (Fini exampleMethods exampleScreen)"
    "ShowCursor_at (Fini exampleMethods exampleScreen) 3 4 =
       (Fini exampleMethods exampleScreen)\<lparr>t_cursorx := 3, t_cursory := 4\<rparr>"
    using fini_guards [OF f, where st = styleInvalid and M = exampleMethods and r = 0 and x = 3
      and y = 4 and mainc = 0 and combc = "[]" and X = exampleExternals and p = True
      and orig = 0 and fb = "[]"]
    by blast+
  from f g show ?thesis by blast
qed

text \<open>
  The claim as stated fails on the screen that \<open>Fini\<close> leaves: \<open>ShowCursor(3, 4)\<close>
  moves the stored cursor from -1 to 3, \<open>SetPaste(true)\<close> turns paste mode on, and
  \<open>RegisterRuneFallback\<close> adds a fallback.
\<close>

theorem fini_unguarded_counterexample:
  "t_fini (Fini exampleMethods exampleScreen) \<and>
   t_cursorx (Fini exampleMethods exampleScreen) = -1 \<and>
   t_cursorx (ShowCursor_at (Fini exampleMethods exampleScreen) 3 4) = 3 \<and>
   \<not> t_paste (Fini exampleMethods exampleScreen) \<and>
   t_paste (SetPaste (Fini exampleMethods exampleScreen) True) \<and>
   t_fallback (Fini exampleMethods exampleScreen) 0x2192 = None \<and>
   t_fallback (RegisterRuneFallback (Fini exampleMethods exampleScreen) 0x2192 ''->'') 0x2192 =
     Some ''->''"
  by (simp add: Fini_example ShowCursor_at_def SetPaste_def RegisterRuneFallback_def)


subsection \<open>The right margin\<close>

lemma sameFrame_refl [simp]: "sameFrame t t"
  by (simp add: sameFrame_def)

lemma sameFrame_trans: "sameFrame t t1 \<Longrightarrow> sameFrame t1 t2 \<Longrightarrow> sameFrame t t2"
  by (simp add: sameFrame_def)

lemma sameFrame_TPuts [simp]: "sameFrame t (TPuts t s)"
  by (simp add: sameFrame_def TPuts_fields)

lemma sameFrame_TPuts' : "sameFrame t t1 \<Longrightarrow> sameFrame t (TPuts t1 s)"
  by (simp add: sameFrame_def TPuts_fields)

lemma sameFrame_resolveColor: "sameFrame t (fst (resolveColor X t c))"
  by (simp add: resolveColor_def sameFrame_def Let_def split: option.splits)

lemma sameFrame_sendFgBgPalette: "sameFrame t (sendFgBgPalette X t fg bg)"
proof -
  obtain t1 fg1 where r1: "resolveColor X t fg = (t1, fg1)" by (cases "resolveColor X t fg")
  obtain t2 bg1 where r2: "resolveColor X t1 bg = (t2, bg1)" by (cases "resolveColor X t1 bg")
  have s1: "sameFrame t t1" using sameFrame_resolveColor [of t X fg] r1 by simp
  have s2: "sameFrame t1 t2" using sameFrame_resolveColor [of t1 X bg] r2 by simp
  have s: "sameFrame t t2" by (rule sameFrame_trans [OF s1 s2])
  show ?thesis
    unfolding sendFgBgPalette_def Let_def r1 r2 prod.case
    using s by (auto intro: sameFrame_TPuts')
qed

lemma sameFrame_sendFgBg: "sameFrame t (sendFgBg X t fg bg)"
  unfolding sendFgBg_def Let_def
  by (auto split: prod.splits intro!: sameFrame_TPuts' sameFrame_trans [OF _ sameFrame_sendFgBgPalette])

lemma sameFrame_drawCellStyle: "sameFrame t (drawCellStyle X t style)"
proof -
  have u: "\<And>t1. sameFrame t t1 \<Longrightarrow> sameFrame t (t1\<lparr>t_curstyle := style\<rparr>)"
    by (simp add: sameFrame_def)
  show ?thesis
    unfolding drawCellStyle_def Let_def
    by (auto split: prod.splits intro!: u sameFrame_TPuts'
        sameFrame_trans [OF _ sameFrame_sendFgBg])
qed


lemma drawCellGlyph_result:
  assumes "GetContent M (t_cells t) x y = (mainc, combc, style, wd)"
    and "drawCellGlyph M X t x y = (t1, str, width)"
  shows "t_w t1 = t_w t \<and> t_cells t1 = t_cells t \<and> (t_cx t1 = x \<or> t_cx t1 = -1) \<and>
         width = (if wd < 1 then 1 else wd)"
proof -
  define t0 where "t0 = (if t_cy t \<noteq> y \<or> t_cx t \<noteq> x
             then (TPuts t (TGoto (t_ti t) x y))\<lparr>t_cx := x, t_cy := y\<rparr> else t)"
  define st where "st = (if style = StyleDefault then t_style t0 else style)"
  define t2 where "t2 = (if st \<noteq> t_curstyle t0 then drawCellStyle X t0 st else t0)"
  define w' where "w' = (if wd < 1 then 1 else wd)"
  define buf where "buf = foldl (\<lambda>b r. encodeRune X t2 r b) (encodeRune X t2 mainc []) combc"
  have a: "t_w t0 = t_w t" "t_cells t0 = t_cells t" "t_cx t0 = x"
    by (simp_all add: t0_def TPuts_fields)
  have "sameFrame t0 t2" by (simp add: t2_def sameFrame_drawCellStyle)
  then have b: "t_w t2 = t_w t" "t_cells t2 = t_cells t" "t_cx t2 = x"
    using a by (simp_all add: sameFrame_def)
  have e: "drawCellGlyph M X t x y =
             (if w' > 1 \<and> buf = ''?'' then (t2\<lparr>t_cx := -1\<rparr>, ''? '', w') else (t2, buf, w'))"
    unfolding drawCellGlyph_def assms(1) prod.case Let_def
    unfolding t0_def [symmetric] st_def [symmetric] t2_def [symmetric] w'_def [symmetric]
      buf_def [symmetric]
    by (rule refl)
  show ?thesis
  proof (cases "w' > 1 \<and> buf = ''?''")
    case True
    with e assms(2) have "t1 = t2\<lparr>t_cx := -1\<rparr>" "width = w'" by simp_all
    with b show ?thesis by (simp add: w'_def)
  next
    case False
    with e assms(2) have "t1 = t2" "width = w'" by simp_all
    with b show ?thesis by (simp add: w'_def)
  qed
qed

text \<open>
  C9. For a dirty cell at column \<open>x\<close> whose glyph has width \<open>wd\<close>, if
  \<open>x > W - wd\<close> on a screen of \<open>W\<close> columns, \<open>drawCell\<close> writes the single space in
  place of the encoded glyph, after the cursor and style sequences of the cell, and
  moves the cached cursor column one to the right of where it stood before the write
  (that is \<open>x\<close>, or -1 when the full-width \<open>?\<close> fallback had invalidated it); it
  returns the width 1 and marks the cell clean.
\<close>

theorem wide_glyph_clipped:
  assumes "Dirty M (t_cells t) x y"
    and "GetContent M (t_cells t) x y = (mainc, combc, style, wd)"
    and "x > t_w t - wd"
  shows "(case drawCellGlyph M X t x y of
            (t1, str, width) \<Rightarrow>
              (t_cx t1 = x \<or> t_cx t1 = -1) \<and>
              drawCell M X t x y =
                ((writeString t1 '' '')\<lparr>t_cx := t_cx t1 + 1,
                                           t_cells := SetDirty M (t_cells t1) x y False\<rparr>, 1) \<and>
              t_cx (fst (drawCell M X t x y)) = t_cx t1 + 1 \<and>
              (if t_buffering t1 then t_buf (fst (drawCell M X t x y)) = t_buf t1 @ '' ''
               else t_out (fst (drawCell M X t x y)) = t_out t1 @ '' ''))"
proof -
  obtain t1 str width where g: "drawCellGlyph M X t x y = (t1, str, width)"
    by (cases "drawCellGlyph M X t x y")
  note r = drawCellGlyph_result [OF assms(2) g]
  from r assms(3) have c: "x > t_w t1 - width" by (auto split: if_splits)
  have d: "drawCell M X t x y =
             ((writeString t1 '' '')\<lparr>t_cx := t_cx t1 + 1,
                                        t_cells := SetDirty M (t_cells t1) x y False\<rparr>, 1)"
    unfolding drawCell_def assms(2) prod.case Let_def g
    using assms(1) c by (simp add: writeString_def)
  show ?thesis
    unfolding g prod.case d
    using r by (simp add: writeString_def)
qed

theorem wide_glyph_clipped_witness:
  "Dirty exampleMethods (t_cells exampleScreen) 79 0 \<and>
   GetContent exampleMethods (t_cells exampleScreen) 79 0 = (0x4E2D, [], StyleDefault, 2) \<and>
   79 > t_w exampleScreen - 2 \<and>
   drawCell exampleMethods exampleExternals exampleScreen 79 0 =
     (exampleScreen\<lparr>t_out := ESC # ''[H '', t_cx := 80, t_cy := 0\<rparr>, 1)"
proof -
  have a: "Dirty exampleMethods (t_cells exampleScreen) 79 0"
    "GetContent exampleMethods (t_cells exampleScreen) 79 0 = (0x4E2D, [], StyleDefault, 2)"
    "79 > t_w exampleScreen - 2"
    by (simp_all add: example_defs)
  have g: "drawCellGlyph exampleMethods exampleExternals exampleScreen 79 0 =
             (exampleScreen\<lparr>t_out := ESC # ''[H'', t_cx := 79, t_cy := 0\<rparr>,
              [CHR 0xE4, CHR 0xB8, CHR 0xAD], 2)"
    by (simp add: drawCellGlyph_def encodeRune_def TPuts_def example_defs StyleDefault_def
        Let_def)
  from wide_glyph_clipped [OF a, of exampleExternals] a g show ?thesis
    by (simp add: writeString_def example_defs)
qed

end
